theory Spec2Isabelle
  imports
    Complex_Main
    "HOL-Library.Product_Lexorder"
    "HOL-Library.Sublist"
    "HOL-Library.Multiset"
begin

section \<open>Python values\<close>

text \<open>
  A Python \<^verbatim>\<open>float\<close> is an IEEE double: a finite value (a rational number; the two
  zeros compare equal and are both falsy, so they are one value here), an infinity, or
  NaN. Only comparisons are needed, and those are exact on the rationals.
\<close>

datatype pyfloat = NInf | Fin rat | PInf | NaN

text \<open>\<^verbatim>\<open>a < b\<close> on floats: false as soon as one side is NaN.\<close>

fun float_lt :: "pyfloat \<Rightarrow> pyfloat \<Rightarrow> bool" where
  "float_lt NaN b = False"
| "float_lt a NaN = False"
| "float_lt (Fin a) (Fin b) = (a < b)"
| "float_lt NInf b = (b \<noteq> NInf)"
| "float_lt a PInf = (a \<noteq> PInf)"
| "float_lt a b = False"

text \<open>\<^verbatim>\<open>a >= b\<close> on floats.\<close>

definition float_ge :: "pyfloat \<Rightarrow> pyfloat \<Rightarrow> bool" where
  "float_ge a b = (float_lt b a \<or> (a = b \<and> a \<noteq> NaN))"

text \<open>
  What \<^verbatim>\<open>requests\<close>' \<^verbatim>\<open>json()\<close> returns: \<^verbatim>\<open>None\<close>, a bool, an int, a float, a
  str, a list or a dict. A dict is an association list read with \<open>map_of\<close>. A string is
  the list of its characters.
\<close>

datatype json =
    JNull
  | JBool bool
  | JInt int
  | JFloat pyfloat
  | JStr string
  | JList "json list"
  | JObj "(string \<times> json) list"

text \<open>The exception classes the code can meet.\<close>

datatype excepcion =
    RequestException
  | HTTPError
  | RequestsJSONDecodeError
  | JSONDecodeError
  | AttributeError
  | TypeError
  | ValueError
  | OverflowError
  | KeyError
  | ZeroDivisionError
  | OtraExcepcion

text \<open>Truthiness, as \<^verbatim>\<open>if rating_str\<close> tests it.\<close>

fun verdadero :: "json \<Rightarrow> bool" where
  "verdadero JNull = False"
| "verdadero (JBool b) = b"
| "verdadero (JInt n) = (n \<noteq> 0)"
| "verdadero (JFloat x) = (x \<noteq> Fin 0)"
| "verdadero (JStr s) = (s \<noteq> [])"
| "verdadero (JList xs) = (xs \<noteq> [])"
| "verdadero (JObj kvs) = (kvs \<noteq> [])"

text \<open>\<^verbatim>\<open>d.get(k, default)\<close> on a dict.\<close>

definition dict_get :: "(string \<times> json) list \<Rightarrow> string \<Rightarrow> json \<Rightarrow> json" where
  "dict_get kvs k d = (case map_of kvs k of None \<Rightarrow> d | Some v \<Rightarrow> v)"

text \<open>
  \<^verbatim>\<open>negocio.get(k, default)\<close> on any value: only a dict has the method, every other
  value raises AttributeError.
\<close>

fun py_get :: "json \<Rightarrow> string \<Rightarrow> json \<Rightarrow> excepcion + json" where
  "py_get (JObj kvs) k d = Inr (dict_get kvs k d)"
| "py_get v k d = Inl AttributeError"

text \<open>\<^verbatim>\<open>k in v\<close> for a string \<open>k\<close>: key of a dict, element of a list, substring of a
  string; the other values are not iterable.\<close>

fun py_in :: "string \<Rightarrow> json \<Rightarrow> excepcion + bool" where
  "py_in k (JObj kvs) = Inr (k \<in> set (map fst kvs))"
| "py_in k (JList xs) = Inr (JStr k \<in> set xs)"
| "py_in k (JStr s) = Inr (sublist k s)"
| "py_in k v = Inl TypeError"

text \<open>\<^verbatim>\<open>v[k]\<close> for a string \<open>k\<close>: the value of a dict's key (KeyError when absent); a
  list or a string wants an integer index, the other values have no subscript.\<close>

fun py_index :: "json \<Rightarrow> string \<Rightarrow> excepcion + json" where
  "py_index (JObj kvs) k = (case map_of kvs k of None \<Rightarrow> Inl KeyError | Some v \<Rightarrow> Inr v)"
| "py_index v k = Inl TypeError"

text \<open>\<^verbatim>\<open>for x in v\<close>: the elements of a list, the keys of a dict, the characters of a
  string; the other values raise TypeError before the first iteration.\<close>

fun py_iter :: "json \<Rightarrow> excepcion + json list" where
  "py_iter (JList xs) = Inr xs"
| "py_iter (JObj kvs) = Inr (map JStr (remdups (map fst kvs)))"
| "py_iter (JStr s) = Inr (map (\<lambda>c. JStr [c]) s)"
| "py_iter v = Inl TypeError"

section \<open>The world outside the program\<close>

text \<open>
  The query parameters of one request: the dict \<^verbatim>\<open>params\<close> of \<^verbatim>\<open>buscar_negocios\<close>, its
  keys \<^verbatim>\<open>type\<close> and \<^verbatim>\<open>api_key\<close> written with a prime.
\<close>

record params =
  engine :: string
  q :: string
  type' :: string
  api_key' :: string
  hl :: string
  gl :: string
  num :: int

text \<open>
  What the program cannot compute by itself:
  \<^item> \<open>float_de_str\<close>, \<open>float_de_int\<close>: the builtin \<^verbatim>\<open>float\<close> on a str (None: ValueError)
    and on an int (None: OverflowError), rounding included;
  \<^item> \<open>http_get\<close>: the exchange of the \<open>k\<close>-th request of the run. \<^verbatim>\<open>requests.get\<close>
    raises, or returns a response with a status code and a body that
    \<^verbatim>\<open>respuesta.json()\<close> decodes or raises on;
  \<^item> \<open>ahora\<close>: the \<open>k\<close>-th reading of the clock, formatted by \<^verbatim>\<open>strftime\<close>.
\<close>

record entorno =
  float_de_str :: "string \<Rightarrow> pyfloat option"
  float_de_int :: "int \<Rightarrow> pyfloat option"
  http_get :: "nat \<Rightarrow> string \<Rightarrow> params \<Rightarrow> excepcion + (nat \<times> (excepcion + json))"
  ahora :: "nat \<Rightarrow> string"

text \<open>The builtin \<^verbatim>\<open>float(v)\<close>.\<close>

fun py_float :: "entorno \<Rightarrow> json \<Rightarrow> excepcion + pyfloat" where
  "py_float E JNull = Inl TypeError"
| "py_float E (JBool b) = Inr (Fin (if b then 1 else 0))"
| "py_float E (JInt n) =
     (case float_de_int E n of None \<Rightarrow> Inl OverflowError | Some x \<Rightarrow> Inr x)"
| "py_float E (JFloat x) = Inr x"
| "py_float E (JStr s) =
     (case float_de_str E s of None \<Rightarrow> Inl ValueError | Some x \<Rightarrow> Inr x)"
| "py_float E (JList xs) = Inl TypeError"
| "py_float E (JObj kvs) = Inl TypeError"

section \<open>main.py: GeneradorLeads\<close>

subsection \<open>The priority classifier\<close>

definition No_disponible :: string where
  "No_disponible = ''No disponible''"

definition ALTA_PRIORIDAD :: string where
  "ALTA_PRIORIDAD = ''ALTA PRIORIDAD''"

definition Normal :: string where
  "Normal = ''Normal''"

text \<open>
  \<^verbatim>\<open>_determinar_prioridad(self, rating, sitio_web)\<close>. The rating is the float that the
  extraction computed; the website is whatever value the record held under
  \<^verbatim>\<open>website\<close>, compared with the sentinel string by \<^verbatim>\<open>==\<close>.
\<close>

definition determinar_prioridad :: "pyfloat \<Rightarrow> json \<Rightarrow> string" where
  "determinar_prioridad rating sitio_web =
     (if float_lt rating (Fin 4) \<or> sitio_web = JStr No_disponible
      then ALTA_PRIORIDAD else Normal)"

subsection \<open>Leads and the generator\<close>

text \<open>One lead: the dict that \<^verbatim>\<open>_procesar_resultados\<close> builds, one field per key.\<close>

record lead =
  Nombre :: json
  Direccion :: json
  Telefono :: json
  Calificacion :: pyfloat
  Sitio_Web :: json
  Tipo_Negocio :: string
  Prioridad :: string
  Fecha_Extraccion :: string
  Ciudad :: string

text \<open>The lines the program prints, one constructor per \<^verbatim>\<open>print\<close>.\<close>

datatype mensaje =
    Buscando string string
  | SinResultados
  | EstructuraRecibida json
  | ErrorHTTP excepcion
  | ErrorJSON excepcion
  | ErrorInesperado excepcion
  | Encontrado json string
  | ErrorProcesando excepcion
  | NoHayLeads
  | Guardados nat string
  | Estadisticas
  | TotalLeads nat
  | TotalAlta nat
  | SinSitioWeb nat
  | RatingBajo nat
  | GuardadosAlta nat
  | NoSeEncontraronLeads

text \<open>
  The generator object (\<open>api_key\<close>, \<open>ciudad\<close>, \<open>base_url\<close>, \<open>leads\<close>) together with
  what it has done to the world: the lines printed, the requests sent, the number of
  clock readings, and the CSV files written (the name and the rows of each
  \<^verbatim>\<open>to_csv\<close>, in order).
\<close>

record estado =
  api_key :: string
  ciudad :: string
  base_url :: string
  leads :: "lead list"
  consola :: "mensaje list"
  peticiones :: "(string \<times> params) list"
  reloj :: nat
  escritos :: "(string \<times> lead list) list"

text \<open>\<^verbatim>\<open>__init__\<close>, in a world where nothing has happened yet.\<close>

definition init :: "string \<Rightarrow> string \<Rightarrow> estado" where
  "init clave c =
     \<lparr>api_key = clave, ciudad = c, base_url = ''https://serpapi.com/search'',
      leads = [], consola = [], peticiones = [], reloj = 0, escritos = []\<rparr>"

text \<open>Sequencing of steps that may raise: the first exception ends the block.\<close>

definition entonces :: "excepcion + 'a \<Rightarrow> ('a \<Rightarrow> excepcion + 'b) \<Rightarrow> excepcion + 'b" where
  "entonces r f = (case r of Inl e \<Rightarrow> Inl e | Inr x \<Rightarrow> f x)"

subsection \<open>Extraction of one record\<close>

text \<open>
  Lines 83 to 87: \<^verbatim>\<open>float(rating_str) if rating_str else 0.0\<close>, with ValueError, and
  only ValueError, turned into 0.0.
\<close>

definition extraer_rating :: "entorno \<Rightarrow> json \<Rightarrow> excepcion + pyfloat" where
  "extraer_rating E rating_str =
     (if verdadero rating_str
      then (case py_float E rating_str of
              Inl e \<Rightarrow> (if e = ValueError then Inr (Fin 0) else Inl e)
            | Inr x \<Rightarrow> Inr x)
      else Inr (Fin 0))"

text \<open>Lines 78 to 80: the phone, read from \<^verbatim>\<open>phone\<close> and then from \<^verbatim>\<open>phone_number\<close>.\<close>

definition extraer_telefono :: "json \<Rightarrow> excepcion + json" where
  "extraer_telefono negocio =
     entonces (py_get negocio ''phone'' (JStr No_disponible)) (\<lambda>telefono.
       if telefono = JStr No_disponible
       then py_get negocio ''phone_number'' (JStr No_disponible)
       else Inr telefono)"

text \<open>
  The body of the \<^verbatim>\<open>try\<close> of \<^verbatim>\<open>_procesar_resultados\<close> up to the lead (lines 73 to
  106), for the city \<open>c\<close> of the generator and the clock reading \<open>fecha\<close>.
\<close>

definition extraer_lead :: "entorno \<Rightarrow> string \<Rightarrow> string \<Rightarrow> string \<Rightarrow> json \<Rightarrow> excepcion + lead" where
  "extraer_lead E c fecha tipo_negocio negocio =
     entonces (py_get negocio ''title'' (JStr No_disponible)) (\<lambda>nombre.
     entonces (py_get negocio ''address'' (JStr No_disponible)) (\<lambda>direccion.
     entonces (extraer_telefono negocio) (\<lambda>telefono.
     entonces (py_get negocio ''rating'' (JStr ''0'')) (\<lambda>rating_str.
     entonces (extraer_rating E rating_str) (\<lambda>rating.
     entonces (py_get negocio ''website'' (JStr No_disponible)) (\<lambda>sitio_web.
       Inr \<lparr>Nombre = nombre, Direccion = direccion, Telefono = telefono,
            Calificacion = rating, Sitio_Web = sitio_web, Tipo_Negocio = tipo_negocio,
            Prioridad = determinar_prioridad rating sitio_web,
            Fecha_Extraccion = fecha, Ciudad = c\<rparr>))))))"

text \<open>
  One turn of the loop of \<^verbatim>\<open>_procesar_resultados\<close>: the lead is appended and
  announced, or the exception is caught and reported.
\<close>

definition procesar_negocio :: "entorno \<Rightarrow> string \<Rightarrow> estado \<Rightarrow> json \<Rightarrow> estado" where
  "procesar_negocio E tipo_negocio st negocio =
     (case extraer_lead E (ciudad st) (ahora E (reloj st)) tipo_negocio negocio of
        Inl e \<Rightarrow> st\<lparr>consola := consola st @ [ErrorProcesando e]\<rparr>
      | Inr l \<Rightarrow>
          st\<lparr>leads := leads st @ [l],
             consola := consola st @ [Encontrado (Nombre l) (Prioridad l)],
             reloj := Suc (reloj st)\<rparr>)"

fun procesar_bucle :: "entorno \<Rightarrow> string \<Rightarrow> estado \<Rightarrow> json list \<Rightarrow> estado" where
  "procesar_bucle E tipo_negocio st [] = st"
| "procesar_bucle E tipo_negocio st (negocio # resto) =
     procesar_bucle E tipo_negocio (procesar_negocio E tipo_negocio st negocio) resto"

text \<open>
  \<^verbatim>\<open>_procesar_resultados\<close>: the \<^verbatim>\<open>for\<close> raises before its first turn when
  \<open>resultados\<close> is not iterable; nothing else escapes the loop.
\<close>

definition procesar_resultados :: "entorno \<Rightarrow> estado \<Rightarrow> json \<Rightarrow> string \<Rightarrow> excepcion + estado" where
  "procesar_resultados E st resultados tipo_negocio =
     entonces (py_iter resultados) (\<lambda>negocios.
       Inr (procesar_bucle E tipo_negocio st negocios))"

subsection \<open>One category query\<close>

definition parametros :: "estado \<Rightarrow> string \<Rightarrow> int \<Rightarrow> params" where
  "parametros st tipo_negocio max_resultados =
     \<lparr>engine = ''google_maps'', q = tipo_negocio @ '' '' @ ciudad st, type' = ''search'',
      api_key' = api_key st, hl = ''es'', gl = ''es'', num = max_resultados\<rparr>"

text \<open>\<^verbatim>\<open>respuesta.raise_for_status()\<close> of \<^verbatim>\<open>requests\<close>: HTTPError for a status from
  400 to 599, nothing for any other status.\<close>

definition raise_for_status :: "nat \<Rightarrow> excepcion + unit" where
  "raise_for_status codigo = (if 400 \<le> codigo \<and> codigo < 600 then Inl HTTPError else Inr ())"

text \<open>
  The \<^verbatim>\<open>try\<close> block of \<^verbatim>\<open>buscar_negocios\<close> (lines 44 to 54) on the outcome of
  \<^verbatim>\<open>requests.get\<close>.
\<close>

definition bloque_try ::
  "entorno \<Rightarrow> estado \<Rightarrow> string \<Rightarrow> excepcion + (nat \<times> (excepcion + json)) \<Rightarrow> excepcion + estado" where
  "bloque_try E st tipo_negocio solicitud =
     entonces solicitud (\<lambda>respuesta.
     entonces (raise_for_status (fst respuesta)) (\<lambda>u.
     entonces (snd respuesta) (\<lambda>datos.
     entonces (py_in ''local_results'' datos) (\<lambda>hay.
       if hay
       then entonces (py_index datos ''local_results'') (\<lambda>resultados.
              procesar_resultados E st resultados tipo_negocio)
       else Inr (st\<lparr>consola := consola st @ [SinResultados, EstructuraRecibida datos]\<rparr>)))))"

text \<open>The \<^verbatim>\<open>except\<close> clauses, in the order of the source: the classes of
  \<^verbatim>\<open>requests.exceptions\<close>, then \<^verbatim>\<open>json.JSONDecodeError\<close>, then any Exception.\<close>

fun es_RequestException :: "excepcion \<Rightarrow> bool" where
  "es_RequestException RequestException = True"
| "es_RequestException HTTPError = True"
| "es_RequestException RequestsJSONDecodeError = True"
| "es_RequestException e = False"

definition manejador :: "excepcion \<Rightarrow> mensaje" where
  "manejador e =
     (if es_RequestException e then ErrorHTTP e
      else if e = JSONDecodeError then ErrorJSON e
      else ErrorInesperado e)"

definition buscar_negocios :: "entorno \<Rightarrow> estado \<Rightarrow> string \<Rightarrow> int \<Rightarrow> estado" where
  "buscar_negocios E st tipo_negocio max_resultados =
     (let p = parametros st tipo_negocio max_resultados;
          solicitud = http_get E (length (peticiones st)) (base_url st) p;
          st1 = st\<lparr>consola := consola st @ [Buscando tipo_negocio (ciudad st)],
                   peticiones := peticiones st @ [(base_url st, p)]\<rparr>
      in case bloque_try E st1 tipo_negocio solicitud of
           Inl e \<Rightarrow> st1\<lparr>consola := consola st1 @ [manejador e]\<rparr>
         | Inr st2 \<Rightarrow> st2)"

subsection \<open>Sorting and writing\<close>

definition Prioridad_Orden :: "lead \<Rightarrow> nat" where
  "Prioridad_Orden l = (if Prioridad l = ALTA_PRIORIDAD then 0 else 1)"

text \<open>The place of a rating in descending order; pandas puts NaN last.\<close>

fun descendente :: "pyfloat \<Rightarrow> nat \<times> rat" where
  "descendente PInf = (0, 0)"
| "descendente (Fin r) = (1, - r)"
| "descendente NInf = (2, 0)"
| "descendente NaN = (3, 0)"

text \<open>
  \<^verbatim>\<open>df.sort_values(by=["Prioridad_Orden", "Calificacion"], ascending=[True, False])\<close>:
  on several columns pandas sorts lexicographically with a stable sort.
\<close>

definition clave_orden :: "lead \<Rightarrow> nat \<times> nat \<times> rat" where
  "clave_orden l = (Prioridad_Orden l, descendente (Calificacion l))"

definition sort_values :: "lead list \<Rightarrow> lead list" where
  "sort_values df = sort_key clave_orden df"

definition es_alta :: "lead \<Rightarrow> bool" where
  "es_alta l = (Prioridad l = ALTA_PRIORIDAD)"

definition guardar_csv :: "estado \<Rightarrow> string \<Rightarrow> estado" where
  "guardar_csv st filename =
     (if leads st = [] then st\<lparr>consola := consola st @ [NoHayLeads]\<rparr>
      else
        (let df = sort_values (leads st) in
         st\<lparr>escritos := escritos st @ [(filename, df)],
            consola := consola st @
              [Guardados (length (leads st)) filename,
               Estadisticas,
               TotalLeads (length df),
               TotalAlta (length (filter es_alta df)),
               SinSitioWeb (length (filter (\<lambda>l. Sitio_Web l = JStr No_disponible) df)),
               RatingBajo (length (filter (\<lambda>l. float_lt (Calificacion l) (Fin 4)) df))]\<rparr>))"

subsection \<open>The whole run\<close>

definition tipos_negocio :: "string list" where
  "tipos_negocio =
     [''Talleres mec'' @ [CHR 0xE1] @ ''nicos'',
      ''Agencias de seguros'',
      ''Cl'' @ [CHR 0xED] @ ''nicas'']"

text \<open>\<^verbatim>\<open>ejecutar_busqueda_completa\<close>; the pause between two queries changes nothing
  that is modelled.\<close>

definition ejecutar_busqueda_completa :: "entorno \<Rightarrow> estado \<Rightarrow> estado" where
  "ejecutar_busqueda_completa E st =
     (let st1 = foldl (\<lambda>s t. buscar_negocios E s t 20) st tipos_negocio in
      if leads st1 \<noteq> [] then
        (let st2 = guardar_csv st1 ''clientes_potenciales.csv'';
             alta_prioridad = filter es_alta (leads st2)
         in if alta_prioridad \<noteq> []
            then st2\<lparr>escritos := escritos st2 @ [(''clientes_alta_prioridad.csv'', alta_prioridad)],
                     consola := consola st2 @ [GuardadosAlta (length alta_prioridad)]\<rparr>
            else st2)
      else st1\<lparr>consola := consola st1 @ [NoSeEncontraronLeads]\<rparr>)"

section \<open>dashboard_streamlit.py: DashboardLeads\<close>

subsection \<open>Float arithmetic and formatting\<close>

text \<open>
  A finite double that is not negative is written \<open>(m, s)\<close>, for the value
  \<open>m * 2 ^ s\<close>. Every operation below rounds the exact result to the nearest double,
  ties to the even mantissa, as IEEE 754 arithmetic does; results stay far below the
  overflow threshold here, since a quotient of two counts is at most 1.
\<close>

fun bits :: "nat \<Rightarrow> nat" where
  "bits n = (if n = 0 then 0 else Suc (bits (n div 2)))"

declare bits.simps [simp del]

text \<open>The integer nearest to \<open>a / b\<close>, ties to even, for \<open>b > 0\<close>.\<close>

definition redondear_par :: "nat \<Rightarrow> nat \<Rightarrow> nat" where
  "redondear_par a b =
     (let c = a div b; r = a mod b
      in if 2 * r < b then c
         else if b < 2 * r then c + 1
         else if even c then c else c + 1)"

text \<open>The binary exponent of \<open>a / b\<close>: the \<open>e\<close> with \<open>2 ^ e \<le> a / b < 2 ^ (e + 1)\<close>, for
  positive \<open>a\<close> and \<open>b\<close>.\<close>

definition exponente :: "nat \<Rightarrow> nat \<Rightarrow> int" where
  "exponente a b =
     (let d = int (bits a) - int (bits b)
      in if (if 0 \<le> d then b * 2 ^ nat d \<le> a else b \<le> a * 2 ^ nat (- d)) then d else d - 1)"

text \<open>The double nearest to \<open>a / b\<close>: a mantissa of 53 bits, or the fixed exponent of
  the subnormal numbers.\<close>

definition doble_de :: "nat \<Rightarrow> nat \<Rightarrow> nat \<times> int" where
  "doble_de a b =
     (if a = 0 then (0, 0)
      else
        (let e = max (exponente a b) (- 1022); t = 52 - e
         in (if 0 \<le> t then redondear_par (a * 2 ^ nat t) b
             else redondear_par a (b * 2 ^ nat (- t)), - t)))"

text \<open>\<^verbatim>\<open>a / b\<close> on two ints that are not negative.\<close>

definition py_truediv :: "nat \<Rightarrow> nat \<Rightarrow> excepcion + nat \<times> int" where
  "py_truediv a b = (if b = 0 then Inl ZeroDivisionError else Inr (doble_de a b))"

text \<open>\<^verbatim>\<open>x * k\<close> for a double \<open>x\<close> and a small int \<open>k\<close> (which converts exactly).\<close>

definition float_mul_nat :: "nat \<times> int \<Rightarrow> nat \<Rightarrow> nat \<times> int" where
  "float_mul_nat x k =
     (if 0 \<le> snd x then doble_de (fst x * k * 2 ^ nat (snd x)) 1
      else doble_de (fst x * k) (2 ^ nat (- snd x)))"

text \<open>The decimal digits of a natural number.\<close>

fun digitos :: "nat \<Rightarrow> string" where
  "digitos n =
     (if n < 10 then [''0123456789'' ! n]
      else digitos (n div 10) @ [''0123456789'' ! (n mod 10)])"

declare digitos.simps [simp del]

text \<open>The value of a double in tenths, rounded to the nearest integer, ties to even.\<close>

definition decimas :: "nat \<times> int \<Rightarrow> nat" where
  "decimas x =
     (if 0 \<le> snd x then fst x * 10 * 2 ^ nat (snd x)
      else redondear_par (fst x * 10) (2 ^ nat (- snd x)))"

text \<open>The format \<^verbatim>\<open>.1f\<close>: the exact value of the double, rounded to one decimal, ties
  to even.\<close>

definition formato_1f :: "nat \<times> int \<Rightarrow> string" where
  "formato_1f x = (let k = decimas x in digitos (k div 10) @ ''.'' @ digitos (k mod 10))"

subsection \<open>The key metrics\<close>

text \<open>
  A DataFrame: the names of its columns and its rows. A row holds a value for every
  column of a lead; a row is read only at columns that the table has, and the cells of
  the rating column are floats, as pandas reads a numeric column.
\<close>

record tabla =
  columnas :: "string list"
  filas :: "lead list"

text \<open>\<^verbatim>\<open>df[c]\<close>: KeyError when the table has no column \<open>c\<close>.\<close>

definition columna :: "tabla \<Rightarrow> string \<Rightarrow> excepcion + lead list" where
  "columna df c = (if c \<in> set (columnas df) then Inr (filas df) else Inl KeyError)"

definition col_Prioridad :: string where
  "col_Prioridad = ''Prioridad''"

definition col_Sitio_Web :: string where
  "col_Sitio_Web = ''Sitio Web''"

definition col_Calificacion :: string where
  "col_Calificacion = ''Calificaci'' @ [CHR 0xF3] @ ''n''"

record metricas =
  total_leads :: nat
  alta_prioridad :: nat
  sin_web :: nat
  rating_bajo :: nat
  tasa_conversion_estimada :: string
  valor_potencial_total :: nat

text \<open>
  \<^verbatim>\<open>calcular_metricas_clave(self, df)\<close>: the entries of the dict are computed in the
  order of the source, so a missing column raises before the division does.
\<close>

definition calcular_metricas_clave :: "tabla \<Rightarrow> excepcion + metricas" where
  "calcular_metricas_clave df =
     entonces (columna df col_Prioridad) (\<lambda>f1.
     entonces (columna df col_Sitio_Web) (\<lambda>f2.
     entonces (columna df col_Calificacion) (\<lambda>f3.
     entonces (columna df col_Prioridad) (\<lambda>f4.
     entonces (py_truediv (length (filter es_alta f4)) (length (filas df))) (\<lambda>x.
       Inr \<lparr>total_leads = length (filas df),
            alta_prioridad = length (filter es_alta f1),
            sin_web = length (filter (\<lambda>l. Sitio_Web l = JStr No_disponible) f2),
            rating_bajo = length (filter (\<lambda>l. float_lt (Calificacion l) (Fin 4)) f3),
            tasa_conversion_estimada = formato_1f (float_mul_nat x 100) @ ''%'',
            valor_potencial_total = length (filas df) * 2500\<rparr>)))))"

section \<open>Vocabulary of the properties\<close>

text \<open>
  A record is extracted correctly when the body of the \<^verbatim>\<open>try\<close> reaches the lead. The
  city, the clock and the category play no part in that, so they are left empty here.
\<close>

definition extraccion_correcta :: "entorno \<Rightarrow> json \<Rightarrow> bool" where
  "extraccion_correcta E negocio = (\<not> isl (extraer_lead E [] [] [] negocio))"

text \<open>The leads that a list of records yields, in order, their timestamps left empty.\<close>

definition nuevos_leads :: "entorno \<Rightarrow> string \<Rightarrow> string \<Rightarrow> json list \<Rightarrow> lead list" where
  "nuevos_leads E c tipo_negocio negocios =
     concat (map (\<lambda>negocio. case extraer_lead E c [] tipo_negocio negocio of
                               Inl e \<Rightarrow> [] | Inr l \<Rightarrow> [l]) negocios)"

text \<open>The three error lines of \<^verbatim>\<open>buscar_negocios\<close>.\<close>

definition es_error :: "mensaje \<Rightarrow> bool" where
  "es_error m =
     (case m of ErrorHTTP e \<Rightarrow> True | ErrorJSON e \<Rightarrow> True | ErrorInesperado e \<Rightarrow> True
      | _ \<Rightarrow> False)"

text \<open>The number that a double stands for.\<close>

definition valor :: "nat \<times> int \<Rightarrow> rat" where
  "valor x = of_nat (fst x) * 2 powi (snd x)"

text \<open>A table has the columns that \<^verbatim>\<open>calcular_metricas_clave\<close> reads.\<close>

definition tiene_columnas :: "tabla \<Rightarrow> bool" where
  "tiene_columnas df =
     (col_Prioridad \<in> set (columnas df) \<and> col_Sitio_Web \<in> set (columnas df)
      \<and> col_Calificacion \<in> set (columnas df))"

section \<open>Example inputs\<close>

text \<open>
  An environment for concrete runs: \<^verbatim>\<open>float\<close> on the strings that the examples
  parse (their other strings are not numbers), \<^verbatim>\<open>float\<close> on small ints, the \<open>k\<close>-th
  request answered by the \<open>k\<close>-th element of a list and failing at the network after
  that, and a clock that stands still.
\<close>

definition float_de_str_ejemplo :: "string \<Rightarrow> pyfloat option" where
  "float_de_str_ejemplo = map_of [(''0'', Fin 0), (''4.5'', Fin 4.5), (''3.2'', Fin 3.2)]"

definition entorno_ejemplo :: "(excepcion + (nat \<times> (excepcion + json))) list \<Rightarrow> entorno" where
  "entorno_ejemplo respuestas =
     \<lparr>float_de_str = float_de_str_ejemplo,
      float_de_int = (\<lambda>n. Some (Fin (of_int n))),
      http_get = (\<lambda>k u p. if k < length respuestas then respuestas ! k else Inl RequestException),
      ahora = (\<lambda>k. ''2024-01-01 00:00:00'')\<rparr>"

text \<open>The two example records of the specification, with a value between them that is
  not a dict.\<close>

definition negocios_ejemplo :: "json list" where
  "negocios_ejemplo =
     [JObj [(''title'', JStr ''ABC Clinic''), (''rating'', JStr ''4.5''),
            (''website'', JStr ''http://abc.com'')],
      JStr ''roto'',
      JObj [(''title'', JStr ''XYZ Shop''), (''rating'', JStr ''3.2'')]]"

definition datos_ejemplo :: json where
  "datos_ejemplo = JObj [(''local_results'', JList negocios_ejemplo)]"

text \<open>A run whose first query succeeds, whose second is answered 503 with a body that
  is not JSON, and whose third fails at the network.\<close>

definition respuestas_ejemplo :: "(excepcion + (nat \<times> (excepcion + json))) list" where
  "respuestas_ejemplo =
     [Inr (200, Inr datos_ejemplo), Inr (503, Inl JSONDecodeError), Inl RequestException]"

text \<open>A run that finds nothing: an empty result list, a body without
  \<^verbatim>\<open>local_results\<close>, and a 404.\<close>

definition respuestas_vacias :: "(excepcion + (nat \<times> (excepcion + json))) list" where
  "respuestas_vacias =
     [Inr (200, Inr (JObj [(''local_results'', JList [])])),
      Inr (200, Inr (JObj [(''error'', JStr ''sin resultados'')])),
      Inr (404, Inr datos_ejemplo)]"

text \<open>A record whose rating is a list, and one whose \<^verbatim>\<open>phone\<close> holds the text of the
  sentinel.\<close>

definition negocio_rating_lista :: json where
  "negocio_rating_lista = JObj [(''title'', JStr ''X''), (''rating'', JList [JFloat (Fin 4.5)])]"

definition negocio_telefono :: json where
  "negocio_telefono =
     JObj [(''title'', JStr ''Y''), (''phone'', JStr ''No disponible''),
           (''phone_number'', JStr ''123''), (''rating'', JFloat (Fin 4.5))]"

text \<open>A run whose only result is the first example record, a Normal one.\<close>

definition respuestas_normal :: "(excepcion + (nat \<times> (excepcion + json))) list" where
  "respuestas_normal =
     [Inr (200, Inr (JObj [(''local_results'', JList (take 1 negocios_ejemplo))]))]"

text \<open>The example data behind a 404 and behind a 300.\<close>

definition entorno_404 :: entorno where
  "entorno_404 = entorno_ejemplo [Inr (404, Inr datos_ejemplo)]"

definition entorno_300 :: entorno where
  "entorno_300 = entorno_ejemplo [Inr (300, Inr datos_ejemplo)]"

text \<open>A record without \<^verbatim>\<open>phone\<close>.\<close>

definition negocio_phone_number :: "(string \<times> json) list" where
  "negocio_phone_number = [(''phone_number'', JStr ''555''), (''rating'', JFloat (Fin 4.5))]"

text \<open>A fresh generator, and the one that a successful query leaves behind.\<close>

definition estado_inicial :: estado where
  "estado_inicial = init ''clave'' ''Madrid''"

definition estado_ejemplo :: estado where
  "estado_ejemplo =
     buscar_negocios (entorno_ejemplo respuestas_ejemplo) estado_inicial ''Agencias de seguros'' 20"

text \<open>Tables for the dashboard: the two example leads (one of them ALTA PRIORIDAD), three
  rows of which one is ALTA PRIORIDAD, and the table of an empty record list, which has
  no column.\<close>

definition tabla_ejemplo :: tabla where
  "tabla_ejemplo =
     \<lparr>columnas = [''Nombre'', col_Prioridad, col_Sitio_Web, col_Calificacion],
      filas = leads estado_ejemplo\<rparr>"

definition tabla_tercio :: tabla where
  "tabla_tercio =
     \<lparr>columnas = [col_Prioridad, col_Sitio_Web, col_Calificacion],
      filas = leads estado_ejemplo @ take 1 (leads estado_ejemplo)\<rparr>"

definition tabla_sin_columnas :: tabla where
  "tabla_sin_columnas = \<lparr>columnas = [], filas = []\<rparr>"

section \<open>Lemmas\<close>

lemmas defs_ejemplo =
  entorno_404_def entorno_300_def negocio_phone_number_def estado_inicial_def estado_ejemplo_def entorno_ejemplo_def float_de_str_ejemplo_def negocios_ejemplo_def datos_ejemplo_def
  respuestas_ejemplo_def respuestas_vacias_def respuestas_normal_def negocio_rating_lista_def negocio_telefono_def
  init_def ejecutar_busqueda_completa_def tipos_negocio_def buscar_negocios_def bloque_try_def
  raise_for_status_def parametros_def procesar_resultados_def procesar_negocio_def
  extraer_lead_def extraer_telefono_def extraer_rating_def dict_get_def
  determinar_prioridad_def manejador_def guardar_csv_def sort_values_def clave_orden_def
  Prioridad_Orden_def es_alta_def No_disponible_def ALTA_PRIORIDAD_def Normal_def
  extraccion_correcta_def es_error_def

lemma ALTA_neq_Normal: "ALTA_PRIORIDAD \<noteq> Normal"
  by (simp add: ALTA_PRIORIDAD_def Normal_def)

lemma entonces_simps [simp]:
  "entonces (Inl e) f = Inl e" "entonces (Inr x) f = f x"
  by (simp_all add: entonces_def)

subsection \<open>One record\<close>

lemma extraer_lead_JObj:
  "extraer_lead E c fecha t (JObj kvs) =
     (case extraer_rating E (dict_get kvs ''rating'' (JStr ''0'')) of
        Inl e \<Rightarrow> Inl e
      | Inr rating \<Rightarrow>
          Inr \<lparr>Nombre = dict_get kvs ''title'' (JStr No_disponible),
               Direccion = dict_get kvs ''address'' (JStr No_disponible),
               Telefono =
                 (if dict_get kvs ''phone'' (JStr No_disponible) = JStr No_disponible
                  then dict_get kvs ''phone_number'' (JStr No_disponible)
                  else dict_get kvs ''phone'' (JStr No_disponible)),
               Calificacion = rating,
               Sitio_Web = dict_get kvs ''website'' (JStr No_disponible),
               Tipo_Negocio = t,
               Prioridad = determinar_prioridad rating (dict_get kvs ''website'' (JStr No_disponible)),
               Fecha_Extraccion = fecha, Ciudad = c\<rparr>)"
  by (simp add: extraer_lead_def extraer_telefono_def split: sum.splits)

lemma extraer_lead_no_dict:
  "\<forall>kvs. negocio \<noteq> JObj kvs \<Longrightarrow> extraer_lead E c fecha t negocio = Inl AttributeError"
  by (cases negocio) (simp_all add: extraer_lead_def)

lemma extraer_lead_fecha:
  "extraer_lead E c fecha t negocio =
     map_sum id (\<lambda>l. l\<lparr>Fecha_Extraccion := fecha\<rparr>) (extraer_lead E c [] t negocio)"
  by (cases negocio) (simp_all add: extraer_lead_JObj extraer_lead_no_dict split: sum.splits)

lemma extraer_lead_isl:
  "isl (extraer_lead E c fecha t negocio) = isl (extraer_lead E c' fecha' t' negocio)"
  by (cases negocio) (simp_all add: extraer_lead_JObj extraer_lead_no_dict split: sum.splits)

lemma fecha_extraer_lead:
  "extraer_lead E c fecha t negocio = Inr l \<Longrightarrow> l\<lparr>Fecha_Extraccion := fecha\<rparr> = l"
  by (cases negocio) (auto simp: extraer_lead_JObj extraer_lead_no_dict split: sum.splits)

text \<open>Where the rating does fall back to 0.0: a falsy value, a string that
  \<^verbatim>\<open>float\<close> rejects, and an absent key (its default \<^verbatim>\<open>"0"\<close> parses to zero).\<close>

lemma extraer_rating_defecto:
  "\<not> verdadero v \<Longrightarrow> extraer_rating E v = Inr (Fin 0)"
  "s \<noteq> [] \<Longrightarrow> float_de_str E s = None \<Longrightarrow> extraer_rating E (JStr s) = Inr (Fin 0)"
  "float_de_str E ''0'' = Some (Fin 0) \<Longrightarrow> map_of kvs ''rating'' = None \<Longrightarrow>
     extraer_rating E (dict_get kvs ''rating'' (JStr ''0'')) = Inr (Fin 0)"
  by (simp_all add: extraer_rating_def dict_get_def)

text \<open>Where it does not: a value that \<^verbatim>\<open>float\<close> refuses with another exception.\<close>

lemma extraer_rating_escapa:
  "xs \<noteq> [] \<Longrightarrow> extraer_rating E (JList xs) = Inl TypeError"
  "kvs \<noteq> [] \<Longrightarrow> extraer_rating E (JObj kvs) = Inl TypeError"
  "n \<noteq> 0 \<Longrightarrow> float_de_int E n = None \<Longrightarrow> extraer_rating E (JInt n) = Inl OverflowError"
  by (simp_all add: extraer_rating_def)

subsection \<open>The loop over the records\<close>

lemma leads_procesar_negocio:
  "leads (procesar_negocio E t st negocio) =
     leads st @ (case extraer_lead E (ciudad st) (ahora E (reloj st)) t negocio of
                   Inl e \<Rightarrow> [] | Inr l \<Rightarrow> [l])"
  by (simp add: procesar_negocio_def split: sum.splits)

lemma marco_procesar_negocio:
  "ciudad (procesar_negocio E t st negocio) = ciudad st"
  "api_key (procesar_negocio E t st negocio) = api_key st"
  "base_url (procesar_negocio E t st negocio) = base_url st"
  "peticiones (procesar_negocio E t st negocio) = peticiones st"
  "escritos (procesar_negocio E t st negocio) = escritos st"
  "length (consola (procesar_negocio E t st negocio)) = Suc (length (consola st))"
  by (simp_all add: procesar_negocio_def split: sum.splits)

lemma marco_procesar_bucle:
  "ciudad (procesar_bucle E t st negocios) = ciudad st"
  "api_key (procesar_bucle E t st negocios) = api_key st"
  "base_url (procesar_bucle E t st negocios) = base_url st"
  "peticiones (procesar_bucle E t st negocios) = peticiones st"
  "escritos (procesar_bucle E t st negocios) = escritos st"
  "length (consola (procesar_bucle E t st negocios)) = length (consola st) + length negocios"
  by (induction negocios arbitrary: st; simp add: marco_procesar_negocio)+

lemma sin_fecha_procesar_negocio:
  "map (\<lambda>l. l\<lparr>Fecha_Extraccion := []\<rparr>) (leads (procesar_negocio E t st negocio)) =
     map (\<lambda>l. l\<lparr>Fecha_Extraccion := []\<rparr>) (leads st) @ nuevos_leads E (ciudad st) t [negocio]"
  unfolding leads_procesar_negocio nuevos_leads_def
  by (subst extraer_lead_fecha) (auto split: sum.splits dest: fecha_extraer_lead)

lemma nuevos_leads_Cons:
  "nuevos_leads E c t (negocio # resto) = nuevos_leads E c t [negocio] @ nuevos_leads E c t resto"
  by (simp add: nuevos_leads_def)

lemma sin_fecha_procesar_bucle:
  "map (\<lambda>l. l\<lparr>Fecha_Extraccion := []\<rparr>) (leads (procesar_bucle E t st negocios)) =
     map (\<lambda>l. l\<lparr>Fecha_Extraccion := []\<rparr>) (leads st) @ nuevos_leads E (ciudad st) t negocios"
proof (induction negocios arbitrary: st)
  case Nil
  show ?case by (simp add: nuevos_leads_def)
next
  case (Cons negocio resto)
  show ?case
    by (simp add: Cons.IH sin_fecha_procesar_negocio marco_procesar_negocio
        nuevos_leads_Cons [of E "ciudad st" t negocio resto])
qed

lemma prefix_procesar_bucle:
  "prefix (leads st) (leads (procesar_bucle E t st negocios))"
proof (induction negocios arbitrary: st)
  case Nil
  show ?case by simp
next
  case (Cons negocio resto)
  have "prefix (leads st) (leads (procesar_negocio E t st negocio))"
    by (simp add: leads_procesar_negocio)
  then show ?case
    using Cons.IH [of "procesar_negocio E t st negocio"] by (auto intro: prefix_order.trans)
qed

lemma length_nuevos_leads:
  "length (nuevos_leads E c t negocios) = length (filter (extraccion_correcta E) negocios)"
proof (induction negocios)
  case Nil
  show ?case by (simp add: nuevos_leads_def)
next
  case (Cons negocio resto)
  have "isl (extraer_lead E c [] t negocio) = isl (extraer_lead E [] [] [] negocio)"
    by (rule extraer_lead_isl)
  then have "length (nuevos_leads E c t [negocio]) = (if extraccion_correcta E negocio then 1 else 0)"
    by (auto simp: nuevos_leads_def extraccion_correcta_def split: sum.splits)
  then show ?case
    using Cons.IH by (simp add: nuevos_leads_Cons [of E c t negocio resto])
qed

subsection \<open>One query and the run\<close>

lemma es_error_manejador: "es_error (manejador e)"
  by (simp add: manejador_def es_error_def)

lemma bloque_try_Inr:
  assumes "bloque_try E st t solicitud = Inr st2"
  shows "(\<exists>negocios. st2 = procesar_bucle E t st negocios)
       \<or> (\<exists>datos. st2 = st\<lparr>consola := consola st @ [SinResultados, EstructuraRecibida datos]\<rparr>)"
  using assms
  by (auto simp: bloque_try_def entonces_def procesar_resultados_def
      split: sum.splits if_splits)

lemma marco_bloque_try:
  assumes "bloque_try E st t solicitud = Inr st2"
  shows "ciudad st2 = ciudad st" "api_key st2 = api_key st" "base_url st2 = base_url st"
    "peticiones st2 = peticiones st" "escritos st2 = escritos st"
    "prefix (leads st) (leads st2)"
  using bloque_try_Inr [OF assms]
  by (auto simp: marco_procesar_bucle prefix_procesar_bucle)

lemma isl_bloque_try:
  "isl (bloque_try E st t solicitud) = isl (bloque_try E st' t solicitud)"
  by (auto simp: bloque_try_def entonces_def procesar_resultados_def
      split: sum.splits if_splits)

lemma marco_buscar_negocios:
  "ciudad (buscar_negocios E st t n) = ciudad st"
  "api_key (buscar_negocios E st t n) = api_key st"
  "base_url (buscar_negocios E st t n) = base_url st"
  "peticiones (buscar_negocios E st t n) = peticiones st @ [(base_url st, parametros st t n)]"
  "escritos (buscar_negocios E st t n) = escritos st"
  by (auto simp: buscar_negocios_def Let_def split: sum.splits dest: marco_bloque_try)

lemma prefix_buscar_negocios:
  "prefix (leads st) (leads (buscar_negocios E st t n))"
  by (auto simp: buscar_negocios_def Let_def split: sum.splits dest: marco_bloque_try(6))

lemma buscar_negocios_Inl:
  assumes "bloque_try E st' t
      (http_get E (length (peticiones st)) (base_url st) (parametros st t n)) = Inl e"
  shows "leads (buscar_negocios E st t n) = leads st"
    and "\<exists>m. es_error m
          \<and> consola (buscar_negocios E st t n) = consola st @ [Buscando t (ciudad st), m]"
proof -
  let ?st1 = "st\<lparr>consola := consola st @ [Buscando t (ciudad st)],
                  peticiones := peticiones st @ [(base_url st, parametros st t n)]\<rparr>"
  let ?sol = "http_get E (length (peticiones st)) (base_url st) (parametros st t n)"
  from assms have "isl (bloque_try E ?st1 t ?sol)"
    using isl_bloque_try [of E ?st1 t ?sol st'] by simp
  then obtain e' where e': "bloque_try E ?st1 t ?sol = Inl e'"
    by (cases "bloque_try E ?st1 t ?sol") auto
  show "leads (buscar_negocios E st t n) = leads st"
    using e' by (simp add: buscar_negocios_def Let_def)
  have "consola (buscar_negocios E st t n) = consola st @ [Buscando t (ciudad st), manejador e']"
    using e' by (simp add: buscar_negocios_def Let_def)
  then show "\<exists>m. es_error m
      \<and> consola (buscar_negocios E st t n) = consola st @ [Buscando t (ciudad st), m]"
    using es_error_manejador by blast
qed

lemma marco_foldl_buscar:
  "ciudad (foldl (\<lambda>s t. buscar_negocios E s t n) st ts) = ciudad st"
  "api_key (foldl (\<lambda>s t. buscar_negocios E s t n) st ts) = api_key st"
  "base_url (foldl (\<lambda>s t. buscar_negocios E s t n) st ts) = base_url st"
  "escritos (foldl (\<lambda>s t. buscar_negocios E s t n) st ts) = escritos st"
  by (induction ts arbitrary: st; simp add: marco_buscar_negocios)+

lemma peticiones_foldl_buscar:
  "peticiones (foldl (\<lambda>s t. buscar_negocios E s t n) st ts) =
     peticiones st @ map (\<lambda>t. (base_url st, parametros st t n)) ts"
proof (induction ts arbitrary: st)
  case Nil
  show ?case by simp
next
  case (Cons t ts)
  show ?case
    by (simp add: Cons.IH marco_buscar_negocios parametros_def)
qed

lemma prefix_foldl_buscar:
  "prefix (leads st) (leads (foldl (\<lambda>s t. buscar_negocios E s t n) st ts))"
proof (induction ts arbitrary: st)
  case Nil
  show ?case by simp
next
  case (Cons t ts)
  show ?case
    using prefix_buscar_negocios [of st E t n] Cons.IH [of "buscar_negocios E st t n"]
    by (auto intro: prefix_order.trans)
qed

lemma leads_guardar_csv: "leads (guardar_csv st f) = leads st"
  by (simp add: guardar_csv_def Let_def)

lemma leads_ejecutar:
  "leads (ejecutar_busqueda_completa E st) =
     leads (foldl (\<lambda>s t. buscar_negocios E s t 20) st tipos_negocio)"
  by (simp add: ejecutar_busqueda_completa_def Let_def leads_guardar_csv)

lemma peticiones_ejecutar:
  "peticiones (ejecutar_busqueda_completa E st) =
     peticiones st @ map (\<lambda>t. (base_url st, parametros st t 20)) tipos_negocio"
  by (simp add: ejecutar_busqueda_completa_def Let_def guardar_csv_def peticiones_foldl_buscar)

subsection \<open>The sort\<close>

lemma descendente_le:
  assumes "descendente a \<le> descendente b"
  shows "\<not> float_lt a b" "b \<noteq> NaN \<Longrightarrow> float_ge a b"
  using assms by (cases a; cases b; auto simp: float_ge_def less_eq_prod_def)+

lemma clave_orden_le:
  assumes "clave_orden a \<le> clave_orden b"
  shows "Prioridad_Orden a \<le> Prioridad_Orden b"
    and "Prioridad_Orden a = Prioridad_Orden b \<Longrightarrow>
      descendente (Calificacion a) \<le> descendente (Calificacion b)"
  using assms by (auto simp: clave_orden_def less_eq_prod_def)

lemma sorted_clave_sort_values:
  "sorted_wrt (\<lambda>a b. clave_orden a \<le> clave_orden b) (sort_values df)"
proof -
  have "sorted (map clave_orden (sort_values df))"
    by (simp add: sort_values_def)
  then show ?thesis
    by (simp add: sorted_map)
qed

lemma sort_values_estable:
  "filter (\<lambda>l. Prioridad l = p \<and> Calificacion l = r) (sort_values df) =
   filter (\<lambda>l. Prioridad l = p \<and> Calificacion l = r) df"
proof -
  define k where "k = (if p = ALTA_PRIORIDAD then 0 else 1 :: nat, descendente r)"
  have eq: "(\<lambda>l. Prioridad l = p \<and> Calificacion l = r) =
      (\<lambda>l. (Prioridad l = p \<and> Calificacion l = r) \<and> clave_orden l = k)"
    by (auto simp: k_def clave_orden_def Prioridad_Orden_def)
  have "filter (\<lambda>l. (Prioridad l = p \<and> Calificacion l = r) \<and> clave_orden l = k) (sort_values df) =
      filter (\<lambda>l. Prioridad l = p \<and> Calificacion l = r)
        (filter (\<lambda>l. clave_orden l = k) (sort_key clave_orden df))"
    by (simp add: sort_values_def conj_commute)
  also have "\<dots> = filter (\<lambda>l. Prioridad l = p \<and> Calificacion l = r)
        (filter (\<lambda>l. clave_orden l = k) df)"
    by (simp only: sort_key_stable)
  also have "\<dots> = filter (\<lambda>l. (Prioridad l = p \<and> Calificacion l = r) \<and> clave_orden l = k) df"
    by (simp add: conj_commute)
  finally show ?thesis
    using eq by metis
qed

lemma sort_values_orden:
  "sorted (map Prioridad_Orden (sort_values df))"
  "sorted_wrt (\<lambda>a b. es_alta b \<longrightarrow> es_alta a) (sort_values df)"
  "sorted_wrt (\<lambda>a b. Prioridad_Orden a = Prioridad_Orden b \<longrightarrow>
       \<not> float_lt (Calificacion a) (Calificacion b)
       \<and> (Calificacion b \<noteq> NaN \<longrightarrow> float_ge (Calificacion a) (Calificacion b)))
     (sort_values df)"
proof -
  note s = sorted_clave_sort_values [of df]
  have "sorted_wrt (\<lambda>a b. Prioridad_Orden a \<le> Prioridad_Orden b) (sort_values df)"
    by (rule sorted_wrt_mono_rel [OF _ s]) (auto dest: clave_orden_le(1))
  then show "sorted (map Prioridad_Orden (sort_values df))"
    by (simp add: sorted_map)
  show "sorted_wrt (\<lambda>a b. es_alta b \<longrightarrow> es_alta a) (sort_values df)"
    by (rule sorted_wrt_mono_rel [OF _ s])
      (auto dest!: clave_orden_le(1) simp: Prioridad_Orden_def es_alta_def split: if_splits)
  show "sorted_wrt (\<lambda>a b. Prioridad_Orden a = Prioridad_Orden b \<longrightarrow>
       \<not> float_lt (Calificacion a) (Calificacion b)
       \<and> (Calificacion b \<noteq> NaN \<longrightarrow> float_ge (Calificacion a) (Calificacion b)))
     (sort_values df)"
    by (rule sorted_wrt_mono_rel [OF _ s])
      (auto dest: clave_orden_le(2) descendente_le)
qed

lemma mset_sort_values: "mset (sort_values df) = mset df"
  by (simp add: sort_values_def)

lemma escritos_guardar_csv:
  "leads st \<noteq> [] \<Longrightarrow> escritos (guardar_csv st f) = escritos st @ [(f, sort_values (leads st))]"
  by (simp add: guardar_csv_def Let_def)

subsection \<open>The environment of a query\<close>

lemma py_float_http: "py_float (E\<lparr>http_get := h\<rparr>) v = py_float E v"
  by (cases v) simp_all

lemma extraer_rating_http:
  "extraer_rating (E\<lparr>http_get := h\<rparr>) v = extraer_rating E v"
  by (simp add: extraer_rating_def py_float_http)

lemma extraer_lead_http:
  "extraer_lead (E\<lparr>http_get := h\<rparr>) c fecha t negocio = extraer_lead E c fecha t negocio"
  by (simp add: extraer_lead_def extraer_rating_http)

lemma procesar_negocio_http:
  "procesar_negocio (E\<lparr>http_get := h\<rparr>) t st negocio = procesar_negocio E t st negocio"
  by (simp add: procesar_negocio_def extraer_lead_http)

lemma procesar_bucle_http:
  "procesar_bucle (E\<lparr>http_get := h\<rparr>) t st negocios = procesar_bucle E t st negocios"
  by (induction negocios arbitrary: st) (simp_all add: procesar_negocio_http)

lemma bloque_try_http:
  "bloque_try (E\<lparr>http_get := h\<rparr>) st t solicitud = bloque_try E st t solicitud"
  by (simp add: bloque_try_def procesar_resultados_def procesar_bucle_http cong: if_cong)

lemma bloque_try_otro_status:
  "\<not> (400 \<le> cod \<and> cod < 600) \<Longrightarrow>
     bloque_try E st t (Inr (cod, cuerpo)) = bloque_try E st t (Inr (200, cuerpo))"
  by (auto simp: bloque_try_def raise_for_status_def)

lemma buscar_negocios_otro_status:
  assumes "http_get E (length (peticiones st)) (base_url st) (parametros st t n) = Inr (cod, cuerpo)"
    and "\<not> (400 \<le> cod \<and> cod < 600)"
  shows "buscar_negocios E st t n =
     buscar_negocios (E\<lparr>http_get := \<lambda>k u p. Inr (200, cuerpo)\<rparr>) st t n"
  using assms
  by (simp add: buscar_negocios_def Let_def bloque_try_http bloque_try_otro_status [of cod])

subsection \<open>Accuracy of the float arithmetic\<close>

lemma redondear_par_error:
  assumes "0 < b"
  shows "\<bar>of_nat (redondear_par a b) - (of_nat a / of_nat b :: rat)\<bar> \<le> 1 / 2"
proof -
  define c where "c = a div b"
  define r where "r = a mod b"
  have "a = c * b + r"
    by (simp add: c_def r_def)
  then have "(of_nat a :: rat) = of_nat c * of_nat b + of_nat r"
    by (metis of_nat_add of_nat_mult)
  then have q: "(of_nat a / of_nat b :: rat) = of_nat c + of_nat r / of_nat b"
    using assms by (simp add: field_simps)
  have rb: "r < b"
    using assms by (simp add: r_def)
  have pos: "(0 :: rat) < of_nat b"
    using assms by simp
  consider "2 * r < b" | "b < 2 * r" | "2 * r = b"
    by linarith
  then show ?thesis
  proof cases
    case 1
    then have "2 * (of_nat r :: rat) < of_nat b"
      by (metis of_nat_less_iff of_nat_mult of_nat_numeral)
    then have "(of_nat r / of_nat b :: rat) \<le> 1 / 2"
      using pos by (simp add: field_simps)
    moreover have "0 \<le> (of_nat r / of_nat b :: rat)"
      by simp
    moreover have "redondear_par a b = c"
      using 1 by (simp add: redondear_par_def c_def r_def Let_def)
    ultimately show ?thesis
      using q by simp
  next
    case 2
    then have "(of_nat b :: rat) < 2 * of_nat r"
      by (metis of_nat_less_iff of_nat_mult of_nat_numeral)
    then have "1 / 2 \<le> (of_nat r / of_nat b :: rat)"
      using pos by (simp add: field_simps)
    moreover have "(of_nat r / of_nat b :: rat) \<le> 1"
      using rb pos by (simp add: field_simps)
    moreover have "redondear_par a b = c + 1"
      using 2 by (simp add: redondear_par_def c_def r_def Let_def)
    ultimately show ?thesis
      using q by simp
  next
    case 3
    then have "2 * (of_nat r :: rat) = of_nat b"
      by (metis of_nat_mult of_nat_numeral)
    then have h: "(of_nat r / of_nat b :: rat) = 1 / 2"
      using pos by (simp add: field_simps)
    have "redondear_par a b = c \<or> redondear_par a b = c + 1"
      using 3 by (simp add: redondear_par_def c_def r_def Let_def)
    then show ?thesis
      using q h by auto
  qed
qed

lemma bits_bounds: "0 < n \<Longrightarrow> 2 ^ (bits n - 1) \<le> n \<and> n < 2 ^ bits n"
proof (induction n rule: bits.induct)
  case (1 n)
  show ?case
  proof (cases "n div 2 = 0")
    case True
    with "1.prems" have "n = 1"
      by (simp add: div_eq_0_iff) 
    then show ?thesis
      by (simp add: bits.simps)
  next
    case False
    then have p: "0 < n div 2"
      by simp
    from "1.IH" [OF _ p] "1.prems"
    have ih: "2 ^ (bits (n div 2) - 1) \<le> n div 2" "n div 2 < 2 ^ bits (n div 2)"
      by simp_all
    have b: "bits n = Suc (bits (n div 2))"
      using "1.prems" by (subst bits.simps) simp
    have b1: "0 < bits (n div 2)"
      using p by (subst bits.simps) simp
    then have "(2::nat) ^ bits (n div 2) = 2 * 2 ^ (bits (n div 2) - 1)"
      by (cases "bits (n div 2)") simp_all
    then have "2 ^ bits (n div 2) \<le> n"
      using ih(1) by linarith
    moreover have "n < 2 * 2 ^ bits (n div 2)"
      using ih(2) by linarith
    ultimately show ?thesis
      by (simp add: b)
  qed
qed

lemma powi_le_div:
  assumes "0 < b"
  shows "(2 powi d \<le> (of_nat a / of_nat b :: rat)) =
     (if 0 \<le> d then b * 2 ^ nat d \<le> a else b \<le> a * 2 ^ nat (- d))"
proof (cases "0 \<le> d")
  case True
  have pos: "(0 :: rat) < of_nat b"
    using assms by simp
  have "(2 powi d \<le> (of_nat a / of_nat b :: rat)) = ((2 :: rat) ^ nat d * of_nat b \<le> of_nat a)"
    using True pos by (simp add: power_int_def field_simps)
  also have "\<dots> = ((of_nat (b * 2 ^ nat d) :: rat) \<le> of_nat a)"
    by (simp add: mult.commute)
  also have "\<dots> = (b * 2 ^ nat d \<le> a)"
    by (simp only: of_nat_le_iff)
  finally show ?thesis
    using True by simp
next
  case False
  have pos: "(0 :: rat) < of_nat b"
    using assms by simp
  have "(2 powi d \<le> (of_nat a / of_nat b :: rat)) = ((of_nat b :: rat) \<le> of_nat a * 2 ^ nat (- d))"
    using False pos by (simp add: power_int_def field_simps)
  also have "\<dots> = ((of_nat b :: rat) \<le> of_nat (a * 2 ^ nat (- d)))"
    by simp
  also have "\<dots> = (b \<le> a * 2 ^ nat (- d))"
    by (simp only: of_nat_le_iff)
  finally show ?thesis
    using False by simp
qed

lemma exponente_bounds:
  assumes "0 < a" "0 < b"
  shows "2 powi (exponente a b) \<le> (of_nat a / of_nat b :: rat)"
    and "(of_nat a / of_nat b :: rat) < 2 powi (exponente a b + 1)"
proof -
  define d where "d = int (bits a) - int (bits b)"
  have pa: "(0 :: rat) < of_nat a" and pb: "(0 :: rat) < of_nat b"
    using assms by simp_all
  from bits_bounds [OF assms(1)] have a1: "(2 :: rat) ^ (bits a - 1) \<le> of_nat a"
    and a2: "(of_nat a :: rat) < 2 ^ bits a"
    by (metis of_nat_le_iff of_nat_numeral of_nat_power, metis of_nat_less_iff of_nat_numeral of_nat_power)
  from bits_bounds [OF assms(2)] have b1: "(2 :: rat) ^ (bits b - 1) \<le> of_nat b"
    and b2: "(of_nat b :: rat) < 2 ^ bits b"
    by (metis of_nat_le_iff of_nat_numeral of_nat_power, metis of_nat_less_iff of_nat_numeral of_nat_power)
  have ba: "0 < bits a" and bb: "0 < bits b"
    using assms by (subst bits.simps, simp)+
  have pw: "(2 :: rat) powi d = 2 ^ bits a / 2 ^ bits b"
    by (simp add: d_def power_int_diff)
  have h2a: "(2 :: rat) ^ bits a = 2 * 2 ^ (bits a - 1)"
    using ba by (cases "bits a") simp_all
  have h2b: "(2 :: rat) ^ bits b = 2 * 2 ^ (bits b - 1)"
    using bb by (cases "bits b") simp_all
  have up: "(of_nat a / of_nat b :: rat) < 2 powi (d + 1)"
  proof -
    have "(of_nat a :: rat) * 2 ^ (bits b - 1) < 2 ^ bits a * of_nat b"
      using a2 b1 pa pb by (meson mult_strict_mono' zero_le_power zero_le_numeral less_imp_le order_less_le_trans mult_less_le_imp_less of_nat_0_le_iff zero_less_power zero_less_numeral)
    then have "(of_nat a / of_nat b :: rat) < 2 ^ bits a / 2 ^ (bits b - 1)"
      using pb by (simp add: field_simps)
    also have "\<dots> = 2 * (2 ^ bits a / 2 ^ bits b)"
      by (simp add: h2b)
    also have "\<dots> = 2 powi (d + 1)"
      by (simp add: pw power_int_add)
    finally show ?thesis .
  qed
  have lo: "2 powi (d - 1) \<le> (of_nat a / of_nat b :: rat)"
  proof -
    have "(2 :: rat) ^ (bits a - 1) * of_nat b \<le> of_nat a * 2 ^ bits b"
      using a1 b2 pa pb by (meson mult_mono less_imp_le zero_le_power zero_le_numeral of_nat_0_le_iff)
    then have "(2 :: rat) ^ (bits a - 1) / 2 ^ bits b \<le> of_nat a / of_nat b"
      using pb by (simp add: field_simps)
    moreover have "(2 :: rat) powi (d - 1) = 2 ^ (bits a - 1) / 2 ^ bits b"
      by (simp add: pw power_int_diff h2a)
    ultimately show ?thesis
      by simp
  qed
  have t: "(2 powi d \<le> (of_nat a / of_nat b :: rat)) =
     (if 0 \<le> d then b * 2 ^ nat d \<le> a else b \<le> a * 2 ^ nat (- d))"
    by (rule powi_le_div [OF assms(2)])
  show "2 powi (exponente a b) \<le> (of_nat a / of_nat b :: rat)"
    using lo t by (auto simp: exponente_def Let_def d_def [symmetric])
  show "(of_nat a / of_nat b :: rat) < 2 powi (exponente a b + 1)"
    using up t by (auto simp: exponente_def Let_def d_def [symmetric] not_le)
qed

lemma valor_doble_de_0: "valor (doble_de 0 b) = 0"
  by (simp add: doble_de_def valor_def)

lemma half_powi: "(1 / 2 :: rat) * 2 powi (- t) = 2 powi (52 - t - 53)"
proof -
  have "52 - t - 53 = - t + (- 1)"
    by simp
  then have "(2 :: rat) powi (52 - t - 53) = 2 powi (- t + (- 1))"
    by (simp only:)
  also have "\<dots> = 2 powi (- t) * 2 powi (- 1)"
    by (rule power_int_add) simp
  finally show ?thesis
    by (simp add: power_int_minus)
qed

lemma doble_de_error:
  assumes "0 < a" "0 < b"
  shows "\<bar>valor (doble_de a b) - (of_nat a / of_nat b :: rat)\<bar>
     \<le> 2 powi (max (exponente a b) (- 1022) - 53)"
proof -
  define e where "e = max (exponente a b) (- 1022)"
  define t where "t = 52 - e"
  have et: "e - 53 = 52 - t - 53"
    by (simp add: t_def)
  have pos: "(0 :: rat) < 2 powi (- t)"
    by (simp add: zero_less_power_int)
  have pb: "(0 :: rat) < of_nat b"
    using assms by simp
  show ?thesis
  proof (cases "0 \<le> t")
    case True
    define m where "m = redondear_par (a * 2 ^ nat t) b"
    define X :: rat where "X = of_nat (a * 2 ^ nat t) / of_nat b"
    have d: "doble_de a b = (m, - t)"
      using assms True unfolding doble_de_def Let_def m_def t_def e_def by simp
    have r: "\<bar>of_nat m - X\<bar> \<le> 1 / 2"
      unfolding m_def X_def by (rule redondear_par_error [OF assms(2)])
    have "(2 :: rat) ^ nat t * 2 powi (- t) = 1"
      using True by (simp add: power_int_def field_simps)
    then have x: "X * 2 powi (- t) = of_nat a / of_nat b"
      by (simp add: X_def field_simps)
    have "\<bar>valor (doble_de a b) - (of_nat a / of_nat b :: rat)\<bar> = \<bar>of_nat m - X\<bar> * 2 powi (- t)"
      using pos by (simp add: d valor_def x [symmetric] abs_mult left_diff_distrib [symmetric])
    also have "\<dots> \<le> 1 / 2 * 2 powi (- t)"
      using r pos by (simp add: mult_right_mono)
    also have "\<dots> = 2 powi (e - 53)"
      by (simp only: half_powi et)
    finally show ?thesis
      by (simp add: e_def)
  next
    case False
    define m where "m = redondear_par a (b * 2 ^ nat (- t))"
    define X :: rat where "X = of_nat a / of_nat (b * 2 ^ nat (- t))"
    have d: "doble_de a b = (m, - t)"
      using assms False unfolding doble_de_def Let_def m_def t_def e_def by simp
    have "0 < b * 2 ^ nat (- t)"
      using assms by simp
    then have r: "\<bar>of_nat m - X\<bar> \<le> 1 / 2"
      unfolding m_def X_def by (rule redondear_par_error)
    have "(2 :: rat) powi (- t) = 2 ^ nat (- t)"
      using False by (simp add: power_int_def)
    then have x: "X * 2 powi (- t) = of_nat a / of_nat b"
      using pb by (simp add: X_def field_simps)
    have "\<bar>valor (doble_de a b) - (of_nat a / of_nat b :: rat)\<bar> = \<bar>of_nat m - X\<bar> * 2 powi (- t)"
      using pos by (simp add: d valor_def x [symmetric] abs_mult left_diff_distrib [symmetric])
    also have "\<dots> \<le> 1 / 2 * 2 powi (- t)"
      using r pos by (simp add: mult_right_mono)
    also have "\<dots> = 2 powi (e - 53)"
      by (simp only: half_powi et)
    finally show ?thesis
      by (simp add: e_def)
  qed
qed

lemma exponente_less:
  assumes "0 < a" "0 < b" "(of_nat a / of_nat b :: rat) < 2 powi k"
  shows "exponente a b < k"
proof (rule ccontr)
  assume "\<not> exponente a b < k"
  then have "k \<le> exponente a b"
    by simp
  then have "(2 :: rat) powi k \<le> 2 powi (exponente a b)"
    by (simp add: power_int_increasing)
  with exponente_bounds(1) [OF assms(1,2)] assms(3) show False
    by simp
qed

lemma doble_de_error_acotado:
  assumes "0 < b" "(of_nat a / of_nat b :: rat) < 2 powi k" "- 1022 < k"
  shows "\<bar>valor (doble_de a b) - (of_nat a / of_nat b :: rat)\<bar> \<le> 2 powi (k - 54)"
proof (cases "a = 0")
  case True
  then show ?thesis
    by (simp add: valor_doble_de_0)
next
  case False
  then have a: "0 < a"
    by simp
  have "exponente a b < k"
    by (rule exponente_less [OF a assms(1,2)])
  then have "max (exponente a b) (- 1022) - 53 \<le> k - 54"
    using assms(3) by simp
  then have "(2 :: rat) powi (max (exponente a b) (- 1022) - 53) \<le> 2 powi (k - 54)"
    by (simp add: power_int_increasing)
  with doble_de_error [OF a assms(1)] show ?thesis
    by simp
qed

lemma formato_1f_decimas:
  "formato_1f x = digitos (decimas x div 10) @ ''.'' @ digitos (decimas x mod 10)"
  by (simp add: formato_1f_def decimas_def Let_def)

lemma float_mul_nat_doble_de:
  "\<exists>a b. 0 < b \<and> float_mul_nat x k = doble_de a b
     \<and> (of_nat a / of_nat b :: rat) = valor x * of_nat k"
proof (cases "0 \<le> snd x")
  case True
  have "(of_nat (fst x * k * 2 ^ nat (snd x)) / of_nat 1 :: rat) = valor x * of_nat k"
    using True by (simp add: valor_def power_int_def)
  moreover have "float_mul_nat x k = doble_de (fst x * k * 2 ^ nat (snd x)) 1"
    using True by (simp add: float_mul_nat_def)
  ultimately show ?thesis
    by (metis zero_less_one)
next
  case False
  have "(of_nat (fst x * k) / of_nat (2 ^ nat (- snd x)) :: rat) = valor x * of_nat k"
    using False by (simp add: valor_def power_int_def field_simps)
  moreover have "float_mul_nat x k = doble_de (fst x * k) (2 ^ nat (- snd x))"
    using False by (simp add: float_mul_nat_def)
  moreover have "(0 :: nat) < 2 ^ nat (- snd x)"
    by simp
  ultimately show ?thesis
    by blast
qed

lemma decimas_error: "\<bar>of_nat (decimas x) - 10 * valor x\<bar> \<le> 1 / 2"
proof (cases "0 \<le> snd x")
  case True
  then have "(of_nat (decimas x) :: rat) = 10 * valor x"
    by (simp add: decimas_def valor_def power_int_def)
  then show ?thesis
    by simp
next
  case False
  have "(of_nat (fst x * 10) / of_nat (2 ^ nat (- snd x)) :: rat) = 10 * valor x"
    using False by (simp add: valor_def power_int_def field_simps)
  moreover have "\<bar>of_nat (redondear_par (fst x * 10) (2 ^ nat (- snd x)))
      - (of_nat (fst x * 10) / of_nat (2 ^ nat (- snd x)) :: rat)\<bar> \<le> 1 / 2"
    by (rule redondear_par_error) simp
  ultimately show ?thesis
    using False by (simp add: decimas_def)
qed

lemma tasa_error:
  assumes "0 < n" "a \<le> n"
  shows "\<bar>of_nat (decimas (float_mul_nat (doble_de a n) 100)) / 10
           - 100 * (of_nat a / of_nat n :: rat)\<bar> \<le> 1 / 20 + 1 / 10 ^ 12"
proof -
  define r :: rat where "r = of_nat a / of_nat n"
  define x1 where "x1 = valor (doble_de a n)"
  define x2 where "x2 = valor (float_mul_nat (doble_de a n) 100)"
  define k :: rat where "k = of_nat (decimas (float_mul_nat (doble_de a n) 100))"
  have pn: "(0 :: rat) < of_nat n"
    using assms by simp
  have "(of_nat a :: rat) \<le> of_nat n"
    using assms by simp
  then have r1: "r \<le> 1"
    using pn by (simp add: r_def field_simps)
  then have "r < 2 powi 1"
    by simp
  from doble_de_error_acotado [OF assms(1) this [unfolded r_def]]
  have e1: "\<bar>x1 - r\<bar> \<le> 2 powi (- 53)"
    by (simp add: x1_def r_def)
  have p53: "(2 :: rat) powi (- 53) = 1 / 2 ^ 53" and p47: "(2 :: rat) powi (- 47) = 1 / 2 ^ 47"
    by (simp_all add: power_int_minus field_simps)
  have x1b: "x1 \<le> 1 + 1 / 2 ^ 53"
    using e1 r1 unfolding p53 by linarith
  obtain p q where pq: "0 < q" "float_mul_nat (doble_de a n) 100 = doble_de p q"
      "(of_nat p / of_nat q :: rat) = valor (doble_de a n) * of_nat 100"
    using float_mul_nat_doble_de by blast
  have v: "(of_nat p / of_nat q :: rat) = 100 * x1"
    using pq(3) by (simp add: x1_def)
  have "100 * x1 < 2 powi 7"
    using x1b by simp
  then have "(of_nat p / of_nat q :: rat) < 2 powi 7"
    by (simp only: v)
  from doble_de_error_acotado [OF pq(1) this]
  have e2: "\<bar>x2 - 100 * x1\<bar> \<le> 2 powi (- 47)"
    by (simp add: x2_def pq(2) v)
  have e3: "\<bar>k - 10 * x2\<bar> \<le> 1 / 2"
    unfolding k_def x2_def by (rule decimas_error)
  have e1': "\<bar>x1 - r\<bar> \<le> 1 / 9007199254740992"
    using e1 unfolding p53 by simp
  have e2': "\<bar>x2 - 100 * x1\<bar> \<le> 1 / 140737488355328"
    using e2 unfolding p47 by simp
  have "\<bar>k / 10 - 100 * r\<bar> \<le> 1 / 20 + 1 / 1000000000000"
    using e1' e2' e3 by linarith
  then show ?thesis
    by (simp add: k_def r_def)
qed

subsection \<open>The key metrics\<close>

lemmas defs_float = doble_de_def exponente_def redondear_par_def float_mul_nat_def
  formato_1f_def decimas_def bits.simps digitos.simps Let_def

lemmas defs_tabla = tabla_ejemplo_def tabla_tercio_def tabla_sin_columnas_def
  tiene_columnas_def col_Prioridad_def col_Sitio_Web_def col_Calificacion_def

lemma tasa_un_medio: "formato_1f (float_mul_nat (doble_de 1 2) 100) @ ''%'' = ''50.0%''"
  by (simp add: defs_float)

lemma tasa_un_tercio: "formato_1f (float_mul_nat (doble_de (Suc 0) 3) 100) = ''33.3''"
  by (simp add: defs_float)

lemma calcular_con_columnas:
  assumes "tiene_columnas df"
  shows "calcular_metricas_clave df =
     entonces (py_truediv (length (filter es_alta (filas df))) (length (filas df))) (\<lambda>x.
       Inr \<lparr>total_leads = length (filas df),
            alta_prioridad = length (filter es_alta (filas df)),
            sin_web = length (filter (\<lambda>l. Sitio_Web l = JStr No_disponible) (filas df)),
            rating_bajo = length (filter (\<lambda>l. float_lt (Calificacion l) (Fin 4)) (filas df)),
            tasa_conversion_estimada = formato_1f (float_mul_nat x 100) @ ''%'',
            valor_potencial_total = length (filas df) * 2500\<rparr>)"
  using assms by (simp add: calcular_metricas_clave_def columna_def tiene_columnas_def)

lemma calcular_sin_columnas:
  assumes "\<not> tiene_columnas df"
  shows "calcular_metricas_clave df = Inl KeyError"
  using assms by (auto simp: calcular_metricas_clave_def columna_def tiene_columnas_def)

section \<open>Properties\<close>

text \<open>
  C1. The classifier is a function of the rating and the website alone; it answers
  ALTA PRIORIDAD exactly when the rating is below 4.0 or the website is the sentinel
  string, and Normal otherwise; a rating below 4.0 gives ALTA PRIORIDAD whatever the
  website is.
\<close>

theorem determinar_prioridad_iff:
  "(determinar_prioridad r w = ALTA_PRIORIDAD
      \<longleftrightarrow> float_lt r (Fin 4) \<or> w = JStr No_disponible)
   \<and> (determinar_prioridad r w = Normal
      \<longleftrightarrow> \<not> (float_lt r (Fin 4) \<or> w = JStr No_disponible))
   \<and> (float_lt r (Fin 4) \<longrightarrow> determinar_prioridad r w = ALTA_PRIORIDAD)"
  using ALTA_neq_Normal by (auto simp: determinar_prioridad_def)

theorem determinar_prioridad_iff_witness:
  "determinar_prioridad (Fin 3.2) (JStr ''http://abc.com'') = ALTA_PRIORIDAD
   \<and> determinar_prioridad (Fin 4.5) (JStr No_disponible) = ALTA_PRIORIDAD
   \<and> determinar_prioridad (Fin 4.5) (JStr ''http://abc.com'') = Normal
   \<and> determinar_prioridad NaN (JStr ''http://abc.com'') = Normal"
  using determinar_prioridad_iff [of "Fin 3.2" "JStr ''http://abc.com''"]
    determinar_prioridad_iff [of "Fin 4.5" "JStr No_disponible"]
    determinar_prioridad_iff [of "Fin 4.5" "JStr ''http://abc.com''"]
    determinar_prioridad_iff [of NaN "JStr ''http://abc.com''"]
  by (simp add: No_disponible_def)

text \<open>
  C2. The rating does not always fall back to 0.0. The inner handler catches
  ValueError only: on a record whose rating is a non-empty list, \<^verbatim>\<open>float\<close> raises
  TypeError, which leaves the inner \<^verbatim>\<open>try\<close>; the outer handler reports it and the
  record is skipped, so no lead is appended. (Lemma \<open>extraer_rating_defecto\<close> has the
  cases where the rating is 0.0: a missing key, a falsy value, a string that is not a
  number.)
\<close>

theorem rating_lista_omite_registro:
  "extraer_rating E (JList [JFloat (Fin 4.5)]) = Inl TypeError
   \<and> extraer_lead E c fecha t negocio_rating_lista = Inl TypeError
   \<and> procesar_resultados E st (JList [negocio_rating_lista]) t =
       Inr (st\<lparr>consola := consola st @ [ErrorProcesando TypeError]\<rparr>)"
  by (simp add: procesar_resultados_def procesar_negocio_def extraer_lead_JObj
      extraer_rating_def dict_get_def negocio_rating_lista_def)

text \<open>
  C3. When there are leads, \<^verbatim>\<open>guardar_csv\<close> writes one file whose rows are the leads
  rearranged so that: the ordinal of the priority (0 for ALTA PRIORIDAD, 1 otherwise)
  never decreases, hence no other lead stands before an ALTA PRIORIDAD one; among rows
  of one priority the rating never increases (a later rating is never greater than an
  earlier one, and is at most the earlier one unless it is NaN, which pandas puts
  last); and rows of equal priority and equal rating stand in their original order.
\<close>

theorem guardar_csv_ordenado:
  assumes "leads st \<noteq> []"
  shows "(\<exists>df. escritos (guardar_csv st f) = escritos st @ [(f, df)]
     \<and> mset df = mset (leads st)
     \<and> sorted (map Prioridad_Orden df)
     \<and> sorted_wrt (\<lambda>a b. es_alta b \<longrightarrow> es_alta a) df
     \<and> sorted_wrt (\<lambda>a b. Prioridad_Orden a = Prioridad_Orden b \<longrightarrow>
           \<not> float_lt (Calificacion a) (Calificacion b)
           \<and> (Calificacion b \<noteq> NaN \<longrightarrow> float_ge (Calificacion a) (Calificacion b))) df
     \<and> (\<forall>p r. filter (\<lambda>l. Prioridad l = p \<and> Calificacion l = r) df =
               filter (\<lambda>l. Prioridad l = p \<and> Calificacion l = r) (leads st)))
   \<and> (\<forall>l. Prioridad_Orden l = (if Prioridad l = ALTA_PRIORIDAD then 0 else 1))"
proof -
  have "\<forall>l. Prioridad_Orden l = (if Prioridad l = ALTA_PRIORIDAD then 0 else 1)"
    by (simp add: Prioridad_Orden_def)
  then show ?thesis
    using escritos_guardar_csv [OF assms, of f] mset_sort_values [of "leads st"]
      sort_values_orden [of "leads st"] sort_values_estable [of _ _ "leads st"]
    by blast
qed

theorem guardar_csv_ordenado_witness:
  "leads estado_ejemplo \<noteq> []
   \<and> (\<exists>df. escritos (guardar_csv estado_ejemplo ''leads.csv'') =
             escritos estado_ejemplo @ [(''leads.csv'', df)]
          \<and> map Nombre (leads estado_ejemplo) = [JStr ''ABC Clinic'', JStr ''XYZ Shop'']
          \<and> map Nombre df = [JStr ''XYZ Shop'', JStr ''ABC Clinic'']
          \<and> sorted (map Prioridad_Orden df))"
proof -
  have h: "leads estado_ejemplo \<noteq> []"
    by (simp add: defs_ejemplo Let_def)
  from guardar_csv_ordenado [OF h, of "''leads.csv''"] obtain df
    where e: "escritos (guardar_csv estado_ejemplo ''leads.csv'') =
        escritos estado_ejemplo @ [(''leads.csv'', df)]"
      and s: "sorted (map Prioridad_Orden df)"
    by blast
  have d: "df = sort_values (leads estado_ejemplo)"
    using e escritos_guardar_csv [OF h, of "''leads.csv''"] by simp
  have "map Nombre (sort_values (leads estado_ejemplo)) = [JStr ''XYZ Shop'', JStr ''ABC Clinic'']"
    by (simp add: defs_ejemplo Let_def less_eq_prod_def)
  then have n: "map Nombre df = [JStr ''XYZ Shop'', JStr ''ABC Clinic'']"
    by (simp only: d)
  have n0: "map Nombre (leads estado_ejemplo) = [JStr ''ABC Clinic'', JStr ''XYZ Shop'']"
    by (simp add: defs_ejemplo Let_def)
  show ?thesis
    by (intro conjI exI [where x = df]) (rule h e n0 n s)+
qed

text \<open>
  C4. A run that ends with at least one lead writes \<^verbatim>\<open>clientes_potenciales.csv\<close> with
  all the leads (sorted), and then \<^verbatim>\<open>clientes_alta_prioridad.csv\<close> with exactly the
  leads of priority ALTA PRIORIDAD, in their order of collection; the second file is
  not written when there is no such lead. Nothing else is written.
\<close>

theorem ejecutar_escribe_csv:
  assumes "leads (ejecutar_busqueda_completa E st) \<noteq> []"
  shows "escritos (ejecutar_busqueda_completa E st) =
      escritos st
      @ [(''clientes_potenciales.csv'', sort_values (leads (ejecutar_busqueda_completa E st)))]
      @ (if filter es_alta (leads (ejecutar_busqueda_completa E st)) = [] then []
         else [(''clientes_alta_prioridad.csv'',
                filter es_alta (leads (ejecutar_busqueda_completa E st)))])
    \<and> mset (sort_values (leads (ejecutar_busqueda_completa E st))) =
        mset (leads (ejecutar_busqueda_completa E st))"
proof -
  let ?st1 = "foldl (\<lambda>s t. buscar_negocios E s t 20) st tipos_negocio"
  have l: "leads (ejecutar_busqueda_completa E st) = leads ?st1"
    by (rule leads_ejecutar)
  with assms have ne: "leads ?st1 \<noteq> []"
    by simp
  have e: "escritos ?st1 = escritos st"
    by (rule marco_foldl_buscar)
  show ?thesis
    unfolding l using ne
    by (simp add: ejecutar_busqueda_completa_def Let_def leads_guardar_csv
        escritos_guardar_csv e mset_sort_values)
qed

theorem ejecutar_escribe_csv_witness:
  "leads (ejecutar_busqueda_completa (entorno_ejemplo respuestas_ejemplo) estado_inicial) \<noteq> []
   \<and> map fst (escritos (ejecutar_busqueda_completa (entorno_ejemplo respuestas_ejemplo) estado_inicial))
       = [''clientes_potenciales.csv'', ''clientes_alta_prioridad.csv'']
   \<and> leads (ejecutar_busqueda_completa (entorno_ejemplo respuestas_normal) estado_inicial) \<noteq> []
   \<and> map fst (escritos (ejecutar_busqueda_completa (entorno_ejemplo respuestas_normal) estado_inicial))
       = [''clientes_potenciales.csv'']"
proof -
  let ?r1 = "ejecutar_busqueda_completa (entorno_ejemplo respuestas_ejemplo) estado_inicial"
  let ?r2 = "ejecutar_busqueda_completa (entorno_ejemplo respuestas_normal) estado_inicial"
  have h1: "leads ?r1 \<noteq> []"
    by (simp add: defs_ejemplo Let_def)
  have a1: "filter es_alta (leads ?r1) \<noteq> []"
    by (simp add: defs_ejemplo Let_def)
  have h2: "leads ?r2 \<noteq> []"
    by (simp add: defs_ejemplo Let_def)
  have a2: "filter es_alta (leads ?r2) = []"
    by (simp add: defs_ejemplo Let_def)
  have e0: "escritos estado_inicial = []"
    by (simp add: estado_inicial_def init_def)
  have "map fst (escritos ?r1) = [''clientes_potenciales.csv'', ''clientes_alta_prioridad.csv'']"
    using ejecutar_escribe_csv [OF h1] a1 e0 by simp
  moreover have "map fst (escritos ?r2) = [''clientes_potenciales.csv'']"
    using ejecutar_escribe_csv [OF h2] a2 e0 by simp
  ultimately show ?thesis
    using h1 h2 by simp
qed

text \<open>
  C5. A run that ends with no lead writes no file, and the last line it prints says
  that no leads were found. \<^verbatim>\<open>guardar_csv\<close> on an empty lead list writes nothing either
  and prints that there is nothing to save.
\<close>

theorem ejecutar_sin_leads:
  "(leads (ejecutar_busqueda_completa E st) = [] \<longrightarrow>
      escritos (ejecutar_busqueda_completa E st) = escritos st
      \<and> last (consola (ejecutar_busqueda_completa E st)) = NoSeEncontraronLeads)
   \<and> (leads st = [] \<longrightarrow>
      escritos (guardar_csv st f) = escritos st
      \<and> consola (guardar_csv st f) = consola st @ [NoHayLeads])"
proof -
  let ?st1 = "foldl (\<lambda>s t. buscar_negocios E s t 20) st tipos_negocio"
  have e: "escritos ?st1 = escritos st"
    by (rule marco_foldl_buscar)
  show ?thesis
    unfolding leads_ejecutar
    by (auto simp: ejecutar_busqueda_completa_def Let_def e guardar_csv_def)
qed

theorem ejecutar_sin_leads_witness:
  "leads (ejecutar_busqueda_completa (entorno_ejemplo respuestas_vacias) estado_inicial) = []
   \<and> escritos (ejecutar_busqueda_completa (entorno_ejemplo respuestas_vacias) estado_inicial) = []
   \<and> last (consola (ejecutar_busqueda_completa (entorno_ejemplo respuestas_vacias) estado_inicial))
       = NoSeEncontraronLeads
   \<and> leads estado_inicial = []
   \<and> escritos (guardar_csv estado_inicial ''leads.csv'') = []
   \<and> consola (guardar_csv estado_inicial ''leads.csv'') = [NoHayLeads]"
proof -
  have h: "leads (ejecutar_busqueda_completa (entorno_ejemplo respuestas_vacias) estado_inicial) = []"
    by (simp add: defs_ejemplo Let_def)
  have h0: "leads estado_inicial = []" "escritos estado_inicial = []" "consola estado_inicial = []"
    by (simp_all add: estado_inicial_def init_def)
  show ?thesis
    using ejecutar_sin_leads [of "entorno_ejemplo respuestas_vacias" estado_inicial "''leads.csv''"]
      h h0
    by simp
qed

text \<open>
  C6. When \<^verbatim>\<open>requests.get\<close> raises, when the status is from 400 to 599, when the body
  is not JSON, or when anything else raises in the \<^verbatim>\<open>try\<close> block before the loop over
  the results, \<^verbatim>\<open>buscar_negocios\<close> leaves the lead list as it was and prints one error
  line after its opening line. A response with any other status is processed exactly
  as the same body with status 200 is: with status 300 and a body holding results,
  leads are appended. Whatever the outcome, \<^verbatim>\<open>buscar_negocios\<close> sends exactly one
  request, and the run sends exactly one request per category, in order: a failed query
  is not repeated and does not stop the run.
\<close>

theorem buscar_negocios_fallo:
  assumes "solicitud = http_get E (length (peticiones st)) (base_url st) (parametros st t n)"
  shows "((\<exists>e. solicitud = Inl e)
          \<or> (\<exists>cod cuerpo. solicitud = Inr (cod, cuerpo) \<and> 400 \<le> cod \<and> cod < 600)
          \<or> (\<exists>cod e. solicitud = Inr (cod, Inl e))
          \<or> (\<exists>e. bloque_try E st t solicitud = Inl e)
        \<longrightarrow> leads (buscar_negocios E st t n) = leads st
            \<and> (\<exists>m. es_error m
                 \<and> consola (buscar_negocios E st t n) = consola st @ [Buscando t (ciudad st), m]))
     \<and> (\<forall>cod cuerpo. solicitud = Inr (cod, cuerpo) \<and> \<not> (400 \<le> cod \<and> cod < 600) \<longrightarrow>
           buscar_negocios E st t n =
             buscar_negocios (E\<lparr>http_get := \<lambda>k u p. Inr (200, cuerpo)\<rparr>) st t n)
     \<and> peticiones (buscar_negocios E st t n) = peticiones st @ [(base_url st, parametros st t n)]
     \<and> peticiones (ejecutar_busqueda_completa E st) =
         peticiones st @ map (\<lambda>t. (base_url st, parametros st t 20)) tipos_negocio"
proof -
  have "\<exists>e. bloque_try E st t solicitud = Inl e"
    if "(\<exists>e. solicitud = Inl e)
          \<or> (\<exists>cod cuerpo. solicitud = Inr (cod, cuerpo) \<and> 400 \<le> cod \<and> cod < 600)
          \<or> (\<exists>cod e. solicitud = Inr (cod, Inl e))
          \<or> (\<exists>e. bloque_try E st t solicitud = Inl e)"
    using that
    by (elim disjE exE conjE) (auto simp: bloque_try_def raise_for_status_def)
  moreover have "buscar_negocios E st t n =
      buscar_negocios (E\<lparr>http_get := \<lambda>k u p. Inr (200, cuerpo)\<rparr>) st t n"
    if "solicitud = Inr (cod, cuerpo)" "\<not> (400 \<le> cod \<and> cod < 600)" for cod cuerpo
    using that buscar_negocios_otro_status [of E st t n cod cuerpo] unfolding assms by simp
  ultimately show ?thesis
    using buscar_negocios_Inl [of E st t st n] marco_buscar_negocios(4) [of E st t n]
      peticiones_ejecutar [of E st]
    unfolding assms by blast
qed

theorem buscar_negocios_fallo_witness:
  "http_get entorno_404 (length (peticiones estado_inicial)) (base_url estado_inicial)
       (parametros estado_inicial ''Agencias de seguros'' 20) = Inr (404, Inr datos_ejemplo)
   \<and> leads (buscar_negocios entorno_404 estado_inicial ''Agencias de seguros'' 20) = []
   \<and> (\<exists>m. es_error m
        \<and> consola (buscar_negocios entorno_404 estado_inicial ''Agencias de seguros'' 20) =
            [Buscando ''Agencias de seguros'' ''Madrid'', m])
   \<and> length (peticiones (ejecutar_busqueda_completa entorno_404 estado_inicial)) = 3
   \<and> http_get entorno_300 (length (peticiones estado_inicial)) (base_url estado_inicial)
       (parametros estado_inicial ''Agencias de seguros'' 20) = Inr (300, Inr datos_ejemplo)
   \<and> buscar_negocios entorno_300 estado_inicial ''Agencias de seguros'' 20 =
       buscar_negocios (entorno_300\<lparr>http_get := \<lambda>k u p. Inr (200, Inr datos_ejemplo)\<rparr>)
         estado_inicial ''Agencias de seguros'' 20"
proof -
  let ?sol = "http_get entorno_404 (length (peticiones estado_inicial)) (base_url estado_inicial)
       (parametros estado_inicial ''Agencias de seguros'' 20)"
  let ?sol3 = "http_get entorno_300 (length (peticiones estado_inicial)) (base_url estado_inicial)
       (parametros estado_inicial ''Agencias de seguros'' 20)"
  have s: "?sol = Inr (404, Inr datos_ejemplo)"
    by (simp add: entorno_404_def entorno_ejemplo_def estado_inicial_def init_def)
  then have f: "\<exists>cod cuerpo. ?sol = Inr (cod, cuerpo) \<and> 400 \<le> cod \<and> cod < 600"
    by simp
  have s3: "?sol3 = Inr (300, Inr datos_ejemplo)"
    by (simp add: entorno_300_def entorno_ejemplo_def estado_inicial_def init_def)
  have h0: "leads estado_inicial = []" "consola estado_inicial = []"
    "peticiones estado_inicial = []" "ciudad estado_inicial = ''Madrid''"
    by (simp_all add: estado_inicial_def init_def)
  have l: "length tipos_negocio = 3"
    by (simp add: tipos_negocio_def)
  from buscar_negocios_fallo [OF refl, of entorno_404 estado_inicial "''Agencias de seguros''" 20] f
  have "leads (buscar_negocios entorno_404 estado_inicial ''Agencias de seguros'' 20) = leads estado_inicial"
    and "\<exists>m. es_error m
        \<and> consola (buscar_negocios entorno_404 estado_inicial ''Agencias de seguros'' 20) =
            consola estado_inicial @ [Buscando ''Agencias de seguros'' (ciudad estado_inicial), m]"
    and "peticiones (ejecutar_busqueda_completa entorno_404 estado_inicial) =
         peticiones estado_inicial
         @ map (\<lambda>t. (base_url estado_inicial, parametros estado_inicial t 20)) tipos_negocio"
    by blast+
  then have a: "leads (buscar_negocios entorno_404 estado_inicial ''Agencias de seguros'' 20) = []"
    "\<exists>m. es_error m
        \<and> consola (buscar_negocios entorno_404 estado_inicial ''Agencias de seguros'' 20) =
            [Buscando ''Agencias de seguros'' ''Madrid'', m]"
    "length (peticiones (ejecutar_busqueda_completa entorno_404 estado_inicial)) = 3"
    using h0 l by simp_all
  have "\<not> (400 \<le> (300::nat) \<and> (300::nat) < 600)"
    by simp
  with buscar_negocios_fallo [OF refl, of entorno_300 estado_inicial "''Agencias de seguros''" 20] s3
  have b: "buscar_negocios entorno_300 estado_inicial ''Agencias de seguros'' 20 =
       buscar_negocios (entorno_300\<lparr>http_get := \<lambda>k u p. Inr (200, Inr datos_ejemplo)\<rparr>)
         estado_inicial ''Agencias de seguros'' 20"
    by blast
  show ?thesis
    by (intro conjI) (rule s a s3 b)+
qed

theorem respuesta_300_counterexample:
  "http_get entorno_300 (length (peticiones estado_inicial)) (base_url estado_inicial)
       (parametros estado_inicial ''Agencias de seguros'' 20) = Inr (300, Inr datos_ejemplo)
   \<and> leads estado_inicial = []
   \<and> map Nombre (leads (buscar_negocios entorno_300 estado_inicial ''Agencias de seguros'' 20)) =
       [JStr ''ABC Clinic'', JStr ''XYZ Shop'']"
  by (simp add: defs_ejemplo Let_def)

text \<open>
  C7. On a list of records \<^verbatim>\<open>_procesar_resultados\<close> returns normally; the leads
  appended are, in order and up to their timestamps, the leads of the records whose
  extraction succeeded, so their number is the number of those records; every record
  prints one line, the lead found or the error caught.
\<close>

theorem procesar_resultados_omite_fallos:
  "\<exists>st'. procesar_resultados E st (JList negocios) t = Inr st'
     \<and> prefix (leads st) (leads st')
     \<and> length (leads st') = length (leads st) + length (filter (extraccion_correcta E) negocios)
     \<and> map (\<lambda>l. l\<lparr>Fecha_Extraccion := []\<rparr>) (leads st') =
         map (\<lambda>l. l\<lparr>Fecha_Extraccion := []\<rparr>) (leads st) @ nuevos_leads E (ciudad st) t negocios
     \<and> length (consola st') = length (consola st) + length negocios"
proof -
  let ?st' = "procesar_bucle E t st negocios"
  have "length (map (\<lambda>l. l\<lparr>Fecha_Extraccion := []\<rparr>) (leads ?st')) =
      length (leads st) + length (filter (extraccion_correcta E) negocios)"
    by (simp only: sin_fecha_procesar_bucle length_append length_map length_nuevos_leads)
  then have "length (leads ?st') = length (leads st) + length (filter (extraccion_correcta E) negocios)"
    by simp
  then show ?thesis
    by (simp add: procesar_resultados_def prefix_procesar_bucle sin_fecha_procesar_bucle
        marco_procesar_bucle)
qed

theorem procesar_resultados_omite_fallos_witness:
  "map (extraccion_correcta (entorno_ejemplo [])) negocios_ejemplo = [True, False, True]
   \<and> (\<exists>st'. procesar_resultados (entorno_ejemplo []) estado_inicial (JList negocios_ejemplo)
              ''Agencias de seguros'' = Inr st'
          \<and> length (leads st') = 2 \<and> length (consola st') = 3)"
proof -
  have c: "map (extraccion_correcta (entorno_ejemplo [])) negocios_ejemplo = [True, False, True]"
    by (simp add: defs_ejemplo)
  have f: "length (filter (extraccion_correcta (entorno_ejemplo [])) negocios_ejemplo) = 2"
    by (simp add: defs_ejemplo)
  have h0: "leads estado_inicial = []" "consola estado_inicial = []"
    by (simp_all add: estado_inicial_def init_def)
  have n: "length negocios_ejemplo = 3"
    by (simp add: negocios_ejemplo_def)
  from procesar_resultados_omite_fallos
    [of "entorno_ejemplo []" estado_inicial negocios_ejemplo "''Agencias de seguros''"]
  obtain st' where st':
    "procesar_resultados (entorno_ejemplo []) estado_inicial (JList negocios_ejemplo)
       ''Agencias de seguros'' = Inr st'"
    "length (leads st') = length (leads estado_inicial)
       + length (filter (extraccion_correcta (entorno_ejemplo [])) negocios_ejemplo)"
    "length (consola st') = length (consola estado_inicial) + length negocios_ejemplo"
    by blast
  have "length (leads st') = 2" "length (consola st') = 3"
    using st'(2,3) f h0 n by simp_all
  then show ?thesis
    using c st'(1) by blast
qed

text \<open>
  C8. The phone of an extracted lead is the value of \<^verbatim>\<open>phone\<close> when that field is
  present and is not the sentinel string; otherwise it is the value of
  \<^verbatim>\<open>phone_number\<close> when that field is present; it is the sentinel when both fields are
  absent, and exactly when each of the two fields is absent or holds the sentinel
  string itself. A \<^verbatim>\<open>phone\<close> that holds the sentinel string is passed over although it
  is present.
\<close>

theorem telefono_extraido:
  assumes "extraer_lead E c fecha t (JObj kvs) = Inr l"
  shows "(\<forall>v. map_of kvs ''phone'' = Some v \<and> v \<noteq> JStr No_disponible \<longrightarrow> Telefono l = v)
     \<and> (\<forall>w. (map_of kvs ''phone'' = None \<or> map_of kvs ''phone'' = Some (JStr No_disponible))
            \<and> map_of kvs ''phone_number'' = Some w \<longrightarrow> Telefono l = w)
     \<and> (map_of kvs ''phone'' = None \<and> map_of kvs ''phone_number'' = None
            \<longrightarrow> Telefono l = JStr No_disponible)
     \<and> (Telefono l = JStr No_disponible \<longleftrightarrow>
          (map_of kvs ''phone'' = None \<or> map_of kvs ''phone'' = Some (JStr No_disponible))
          \<and> (map_of kvs ''phone_number'' = None
               \<or> map_of kvs ''phone_number'' = Some (JStr No_disponible)))"
proof -
  have tel: "Telefono l =
      (if dict_get kvs ''phone'' (JStr No_disponible) = JStr No_disponible
       then dict_get kvs ''phone_number'' (JStr No_disponible)
       else dict_get kvs ''phone'' (JStr No_disponible))"
    using assms by (auto simp: extraer_lead_JObj split: sum.splits)
  show ?thesis
    unfolding tel
    by (cases "map_of kvs ''phone''"; cases "map_of kvs ''phone_number''")
      (simp_all add: dict_get_def)
qed

theorem telefono_extraido_witness:
  "map_of negocio_phone_number ''phone'' = None
   \<and> map_of negocio_phone_number ''phone_number'' = Some (JStr ''555'')
   \<and> (\<exists>l. extraer_lead (entorno_ejemplo []) ''Madrid'' ''2024-01-01 00:00:00''
             ''Agencias de seguros'' (JObj negocio_phone_number) = Inr l
          \<and> Telefono l = JStr ''555'')"
proof -
  have p: "map_of negocio_phone_number ''phone'' = None"
    "map_of negocio_phone_number ''phone_number'' = Some (JStr ''555'')"
    by (simp_all add: negocio_phone_number_def)
  obtain l where l: "extraer_lead (entorno_ejemplo []) ''Madrid'' ''2024-01-01 00:00:00''
             ''Agencias de seguros'' (JObj negocio_phone_number) = Inr l"
    by (simp add: extraer_lead_JObj extraer_rating_def negocio_phone_number_def dict_get_def)
  from telefono_extraido [OF l] p have "Telefono l = JStr ''555''"
    by blast
  then show ?thesis
    using p l by blast
qed

theorem telefono_sentinela_counterexample:
  "py_get negocio_telefono ''phone'' JNull = Inr (JStr ''No disponible'')
   \<and> py_get negocio_telefono ''phone_number'' JNull = Inr (JStr ''123'')
   \<and> map_sum id Telefono
        (extraer_lead (entorno_ejemplo []) ''Madrid'' ''2024-01-01 00:00:00''
           ''Agencias de seguros'' negocio_telefono) = Inr (JStr ''123'')"
  by (simp add: defs_ejemplo)

text \<open>
  C9. Every operation leaves the lead list as it was or appends to its end: the list
  before is a prefix of the list after, for one record, for a result list (also when
  the loop raises), for a query and for the whole run. \<^verbatim>\<open>guardar_csv\<close> leaves the list
  as it is.
\<close>

theorem leads_solo_crece:
  "prefix (leads st) (leads (procesar_negocio E t st negocio))
   \<and> prefix (leads st)
        (leads (case procesar_resultados E st resultados t of Inl e \<Rightarrow> st | Inr st' \<Rightarrow> st'))
   \<and> prefix (leads st) (leads (buscar_negocios E st t n))
   \<and> leads (guardar_csv st f) = leads st
   \<and> prefix (leads st) (leads (ejecutar_busqueda_completa E st))"
proof -
  have "prefix (leads st) (leads (procesar_negocio E t st negocio))"
    by (simp add: leads_procesar_negocio)
  moreover have "prefix (leads st)
      (leads (case procesar_resultados E st resultados t of Inl e \<Rightarrow> st | Inr st' \<Rightarrow> st'))"
    by (auto simp: procesar_resultados_def entonces_def prefix_procesar_bucle split: sum.splits)
  moreover have "prefix (leads st) (leads (ejecutar_busqueda_completa E st))"
    by (simp add: leads_ejecutar prefix_foldl_buscar)
  ultimately show ?thesis
    by (simp add: prefix_buscar_negocios leads_guardar_csv)
qed

theorem leads_solo_crece_witness:
  "map Nombre (leads estado_ejemplo) = [JStr ''ABC Clinic'', JStr ''XYZ Shop'']
   \<and> leads (guardar_csv estado_ejemplo ''leads.csv'') = leads estado_ejemplo
   \<and> prefix (leads estado_ejemplo)
       (leads (ejecutar_busqueda_completa (entorno_ejemplo respuestas_ejemplo) estado_ejemplo))"
proof -
  have n0: "map Nombre (leads estado_ejemplo) = [JStr ''ABC Clinic'', JStr ''XYZ Shop'']"
    by (simp add: defs_ejemplo Let_def)
  show ?thesis
    using n0 leads_solo_crece [of estado_ejemplo "entorno_ejemplo respuestas_ejemplo"
        "[]" JNull JNull 0 "''leads.csv''"]
    by blast
qed

text \<open>
  C10. On a table that has the columns Prioridad, Sitio Web and Calificacion and at
  least one row, \<^verbatim>\<open>calcular_metricas_clave\<close> returns the metrics: the number of rows,
  the number of ALTA PRIORIDAD rows, and as rate a text, the float
  \<^verbatim>\<open>alta / total * 100\<close> written with one decimal and a percent sign. That text is a
  decimal number of tenths which differs from the exact percentage by at most 0.05,
  up to the rounding of the two float operations. On a table with those columns and no
  row the division raises ZeroDivisionError. A table that lacks one of the columns
  raises KeyError, before the division. So an empty table never yields metrics,
  whether it has columns or not.
\<close>

theorem calcular_metricas_clave_tabla:
  "(tiene_columnas df \<and> filas df \<noteq> [] \<longrightarrow>
      (\<exists>m. calcular_metricas_clave df = Inr m
         \<and> total_leads m = length (filas df)
         \<and> alta_prioridad m = length (filter es_alta (filas df))
         \<and> tasa_conversion_estimada m =
             formato_1f (float_mul_nat (doble_de (alta_prioridad m) (total_leads m)) 100) @ ''%''
         \<and> (\<exists>k. tasa_conversion_estimada m =
                  digitos (k div 10) @ ''.'' @ digitos (k mod 10) @ ''%''
              \<and> \<bar>of_nat k / 10
                   - 100 * (of_nat (alta_prioridad m) / of_nat (total_leads m) :: rat)\<bar>
                 \<le> 1 / 20 + 1 / 10 ^ 12)))
   \<and> (tiene_columnas df \<and> filas df = [] \<longrightarrow> calcular_metricas_clave df = Inl ZeroDivisionError)
   \<and> (\<not> tiene_columnas df \<longrightarrow> calcular_metricas_clave df = Inl KeyError)
   \<and> (filas df = [] \<longrightarrow> isl (calcular_metricas_clave df))"
proof -
  let ?a = "length (filter es_alta (filas df))"
  let ?n = "length (filas df)"
  let ?k = "decimas (float_mul_nat (doble_de ?a ?n) 100)"
  have vacia: "isl (calcular_metricas_clave df)" if "filas df = []"
    using that calcular_con_columnas [of df] calcular_sin_columnas [of df]
    by (cases "tiene_columnas df") (simp_all add: py_truediv_def)
  have texto: "formato_1f (float_mul_nat (doble_de ?a ?n) 100) @ ''%'' =
      digitos (?k div 10) @ ''.'' @ digitos (?k mod 10) @ ''%''"
    by (simp add: formato_1f_decimas)
  have cerca: "\<bar>of_nat ?k / 10 - 100 * (of_nat ?a / of_nat ?n :: rat)\<bar> \<le> 1 / 20 + 1 / 10 ^ 12"
    if "filas df \<noteq> []"
    using that by (intro tasa_error) simp_all
  have "\<exists>k. formato_1f (float_mul_nat (doble_de ?a ?n) 100) @ ''%'' =
          digitos (k div 10) @ ''.'' @ digitos (k mod 10) @ ''%''
        \<and> \<bar>of_nat k / 10 - 100 * (of_nat ?a / of_nat ?n :: rat)\<bar> \<le> 1 / 20 + 1 / 10 ^ 12"
    if "filas df \<noteq> []"
    using texto cerca [OF that] by blast
  then show ?thesis
    using vacia calcular_sin_columnas [of df]
    by (auto simp: calcular_con_columnas py_truediv_def)
qed

theorem calcular_metricas_clave_tabla_witness:
  "tiene_columnas tabla_ejemplo \<and> filas tabla_ejemplo \<noteq> []
   \<and> (\<exists>m. calcular_metricas_clave tabla_ejemplo = Inr m
         \<and> total_leads m = 2 \<and> alta_prioridad m = 1
         \<and> tasa_conversion_estimada m = ''50.0%'')
   \<and> tiene_columnas (tabla_ejemplo\<lparr>filas := []\<rparr>)
   \<and> calcular_metricas_clave (tabla_ejemplo\<lparr>filas := []\<rparr>) = Inl ZeroDivisionError
   \<and> \<not> tiene_columnas tabla_sin_columnas
   \<and> calcular_metricas_clave tabla_sin_columnas = Inl KeyError"
proof -
  have c: "tiene_columnas tabla_ejemplo" "tiene_columnas (tabla_ejemplo\<lparr>filas := []\<rparr>)"
    "\<not> tiene_columnas tabla_sin_columnas"
    by (simp_all add: defs_tabla)
  have h: "filas tabla_ejemplo \<noteq> []" "filas (tabla_ejemplo\<lparr>filas := []\<rparr>) = []"
    by (simp_all add: defs_tabla defs_ejemplo Let_def)
  have n: "length (filas tabla_ejemplo) = 2" "length (filter es_alta (filas tabla_ejemplo)) = 1"
    by (simp_all add: defs_tabla defs_ejemplo Let_def)
  from calcular_metricas_clave_tabla [of tabla_ejemplo] c(1) h(1) obtain m
    where m: "calcular_metricas_clave tabla_ejemplo = Inr m"
      "total_leads m = length (filas tabla_ejemplo)"
      "alta_prioridad m = length (filter es_alta (filas tabla_ejemplo))"
      "tasa_conversion_estimada m =
         formato_1f (float_mul_nat (doble_de (alta_prioridad m) (total_leads m)) 100) @ ''%''"
    by blast
  have m2: "total_leads m = 2" "alta_prioridad m = 1"
    using m(2,3) n by simp_all
  have m3: "tasa_conversion_estimada m = ''50.0%''"
    using m(4) tasa_un_medio by (simp only: m2)
  have z: "calcular_metricas_clave (tabla_ejemplo\<lparr>filas := []\<rparr>) = Inl ZeroDivisionError"
    using calcular_metricas_clave_tabla [of "tabla_ejemplo\<lparr>filas := []\<rparr>"] c(2) h(2) by blast
  have k: "calcular_metricas_clave tabla_sin_columnas = Inl KeyError"
    using calcular_metricas_clave_tabla [of tabla_sin_columnas] c(3) by blast
  show ?thesis
    by (intro conjI exI [where x = m]) (rule c h m m2 m3 z k)+
qed

theorem tasa_texto_counterexample:
  "filas tabla_sin_columnas = []
   \<and> calcular_metricas_clave tabla_sin_columnas = Inl KeyError
   \<and> length (filter es_alta (filas tabla_tercio)) = 1
   \<and> length (filas tabla_tercio) = 3
   \<and> map_sum id tasa_conversion_estimada (calcular_metricas_clave tabla_tercio) = Inr ''33.3%''"
proof -
  have c: "tiene_columnas tabla_tercio" "\<not> tiene_columnas tabla_sin_columnas"
    by (simp_all add: defs_tabla)
  have n: "length (filter es_alta (filas tabla_tercio)) = 1" "length (filas tabla_tercio) = 3"
    by (simp_all add: defs_tabla defs_ejemplo Let_def)
  have "map_sum id tasa_conversion_estimada (calcular_metricas_clave tabla_tercio) = Inr ''33.3%''"
    by (simp add: calcular_con_columnas [OF c(1)] n py_truediv_def tasa_un_tercio)
  then show ?thesis
    using n calcular_sin_columnas [OF c(2)] by (simp add: tabla_sin_columnas_def)
qed

end
